theory Spec2Isabelle
  imports Main "HOL-Library.AList"
begin

section \<open>Strings and JavaScript helpers\<close>

text \<open>
  The code generator of \<^verbatim>\<open>packages/astro/src/compiler/codegen/index.ts\<close> works on
  JavaScript strings. A string is modelled as a list of 8-bit characters; the
  library functions the source calls on strings are written out below. The
  white space of JavaScript (\<^verbatim>\<open>\s\<close> and \<^verbatim>\<open>trim\<close>) is, among the 8-bit characters, the
  five ASCII control characters, the space and the no-break space.
\<close>

definition startsWith :: "string \<Rightarrow> string \<Rightarrow> bool" where
  "startsWith s p = (take (length p) s = p)"


definition is_space :: "char \<Rightarrow> bool" where
  "is_space c = (c = CHR '' '' \<or> c = CHR 0x09 \<or> c = CHR 0x0A \<or> c = CHR 0x0B \<or> c = CHR 0x0C \<or> c = CHR 0x0D
                 \<or> c = CHR 0xA0)"

text \<open>\<^verbatim>\<open>String.prototype.trim\<close>.\<close>

definition trim :: "string \<Rightarrow> string" where
  "trim s = rev (dropWhile is_space (rev (dropWhile is_space s)))"

text \<open>\<^verbatim>\<open>str.split(sep)\<close> for a one-character separator.\<close>

fun split_on :: "char \<Rightarrow> string \<Rightarrow> string list" where
  "split_on sep [] = [[]]"
| "split_on sep (c # cs) =
     (if c = sep then [] # split_on sep cs
      else (case split_on sep cs of [] \<Rightarrow> [[c]] | seg # segs \<Rightarrow> (c # seg) # segs))"

definition hex_digit :: "nat \<Rightarrow> char" where
  "hex_digit n = (''0123456789abcdef'' ! (n mod 16))"

text \<open>
  \<^verbatim>\<open>JSON.stringify\<close> of a string: the quotation mark, the backslash and the
  control characters are escaped, everything else is copied.
\<close>

definition json_escape :: "char \<Rightarrow> string" where
  "json_escape c =
     (if c = CHR 0x22 then [CHR 0x5C, CHR 0x22]
      else if c = CHR 0x5C then [CHR 0x5C, CHR 0x5C]
      else if c = CHR 0x08 then [CHR 0x5C, CHR ''b'']
      else if c = CHR 0x0C then [CHR 0x5C, CHR ''f'']
      else if c = CHR 0x0A then [CHR 0x5C, CHR ''n'']
      else if c = CHR 0x0D then [CHR 0x5C, CHR ''r'']
      else if c = CHR 0x09 then [CHR 0x5C, CHR ''t'']
      else if (of_char c :: nat) < 0x20
        then [CHR 0x5C, CHR ''u'', CHR ''0'', CHR ''0'', hex_digit (of_char c div 16), hex_digit (of_char c)]
      else [c])"

definition JSON_stringify :: "string \<Rightarrow> string" where
  "JSON_stringify s = CHR 0x22 # concat (map json_escape s) @ [CHR 0x22]"

section \<open>Attribute records\<close>

text \<open>
  A \<^verbatim>\<open>Record<string, string>\<close> is the list of its entries in the order
  \<^verbatim>\<open>Object.entries\<close> enumerates them: array-index keys first, in ascending
  numeric order, then the other keys in the order of their first assignment.
\<close>

type_synonym attrs = "(string \<times> string) list"

definition is_digit :: "char \<Rightarrow> bool" where
  "is_digit c = (48 \<le> (of_char c :: nat) \<and> (of_char c :: nat) \<le> 57)"

definition digits_value :: "string \<Rightarrow> nat" where
  "digits_value s = foldl (\<lambda>acc c. 10 * acc + (of_char c - 48)) 0 s"

definition is_array_index :: "string \<Rightarrow> bool" where
  "is_array_index k =
     (k \<noteq> [] \<and> list_all is_digit k \<and> (k = ''0'' \<or> hd k \<noteq> CHR ''0'') \<and> digits_value k < 4294967295)"

fun insert_index :: "string \<Rightarrow> string \<Rightarrow> attrs \<Rightarrow> attrs" where
  "insert_index k v [] = [(k, v)]"
| "insert_index k v ((k', v') # rest) =
     (if is_array_index k' \<and> digits_value k' < digits_value k
      then (k', v') # insert_index k v rest
      else (k, v) # (k', v') # rest)"

text \<open>
  The assignment \<^verbatim>\<open>result[key] = val\<close> of a string to a property of an object
  literal. The key \<^verbatim>\<open>__proto__\<close> is the prototype setter, which passes over a value
  that is not an object: the assignment changes nothing.
\<close>

definition obj_set :: "string \<Rightarrow> string \<Rightarrow> attrs \<Rightarrow> attrs" where
  "obj_set k v obj =
     (if k = ''__proto__'' then obj
      else if k \<in> fst ` set obj then AList.update k v obj
      else if is_array_index k then insert_index k v obj
      else obj @ [(k, v)])"

text \<open>A property read that is tested for truthiness: the empty string is falsy.\<close>

definition truthy :: "string option \<Rightarrow> bool" where
  "truthy v = (case v of None \<Rightarrow> False | Some s \<Rightarrow> s \<noteq> [])"

section \<open>Hydration directives\<close>

definition hydrationDirectives :: "string list" where
  "hydrationDirectives =
     [''client:load'', ''client:idle'', ''client:visible'', ''client:media'', ''client:only'']"

text \<open>\<^verbatim>\<open>interface HydrationAttributes { method?; value? }\<close>\<close>

record HydrationAttributes =
  hydr_method :: "string option"
  hydr_value :: "string option"

text \<open>
  \<^verbatim>\<open>findHydrationAttributes\<close>: the loop over \<^verbatim>\<open>Object.entries(attrs)\<close> assigns
  \<^verbatim>\<open>method\<close> and \<^verbatim>\<open>value\<close> at every directive key it meets.
\<close>

fun findHydrationAttributes_loop :: "attrs \<Rightarrow> HydrationAttributes \<Rightarrow> HydrationAttributes" where
  "findHydrationAttributes_loop [] acc = acc"
| "findHydrationAttributes_loop ((key, val) # rest) acc =
     findHydrationAttributes_loop rest
       (if key \<in> set hydrationDirectives
        then \<lparr>hydr_method = Some (drop 7 key),
              hydr_value = (if val = ''true'' then None else Some val)\<rparr>
        else acc)"

definition findHydrationAttributes :: "attrs \<Rightarrow> HydrationAttributes" where
  "findHydrationAttributes attrs =
     findHydrationAttributes_loop attrs \<lparr>hydr_method = None, hydr_value = None\<rparr>"

text \<open>
  \<^verbatim>\<open>generateAttributes\<close>: the accumulator \<^verbatim>\<open>result\<close> starts as the opening brace;
  directive keys are passed over, spread keys are copied, every other key is
  stringified and paired with its value.
\<close>

fun generateAttributes_loop :: "attrs \<Rightarrow> string \<Rightarrow> string" where
  "generateAttributes_loop [] result = result"
| "generateAttributes_loop ((key, val) # rest) result =
     generateAttributes_loop rest
       (if key \<in> set hydrationDirectives then result
        else if startsWith key ''...'' then result @ key @ '',''
        else result @ JSON_stringify key @ '':'' @ val @ '','')"

definition generateAttributes :: "attrs \<Rightarrow> string" where
  "generateAttributes attrs =
     (let result = generateAttributes_loop attrs ''{'';
          result = result @ ''[__astroContext]:props[__astroContext]''
      in result @ ''}'')"


definition is_directive :: "string \<times> string \<Rightarrow> bool" where
  "is_directive kv = (fst kv \<in> set hydrationDirectives)"


definition first_directive_method :: "attrs \<Rightarrow> string option" where
  "first_directive_method attrs =
     (case filter is_directive attrs of [] \<Rightarrow> None | kv # _ \<Rightarrow> Some (drop 7 (fst kv)))"

section \<open>The template AST and the state of one compile\<close>

text \<open>
  The node kinds of the template AST (\<^verbatim>\<open>node.type\<close>). A kind the code does not
  name is kept as \<open>OtherType\<close> with its text.
\<close>

datatype ntype = Element | InlineComponent | Fragment | Slot | SlotTemplate | Head | Title | Body
  | Text | MustacheTag | Expression | CodeSpan | CodeFence | Comment | Attribute | Spread | Style
  | AttributeShorthand | OtherType string

definition type_name :: "ntype \<Rightarrow> string" where
  "type_name t =
     (case t of Element \<Rightarrow> ''Element'' | InlineComponent \<Rightarrow> ''InlineComponent''
      | Fragment \<Rightarrow> ''Fragment'' | Slot \<Rightarrow> ''Slot'' | SlotTemplate \<Rightarrow> ''SlotTemplate''
      | Head \<Rightarrow> ''Head'' | Title \<Rightarrow> ''Title'' | Body \<Rightarrow> ''Body'' | Text \<Rightarrow> ''Text''
      | MustacheTag \<Rightarrow> ''MustacheTag'' | Expression \<Rightarrow> ''Expression''
      | CodeSpan \<Rightarrow> ''CodeSpan'' | CodeFence \<Rightarrow> ''CodeFence'' | Comment \<Rightarrow> ''Comment''
      | Attribute \<Rightarrow> ''Attribute'' | Spread \<Rightarrow> ''Spread'' | Style \<Rightarrow> ''Style''
      | AttributeShorthand \<Rightarrow> ''AttributeShorthand'' | OtherType s \<Rightarrow> s)"

text \<open>
  A \<^verbatim>\<open>TemplateNode\<close> with the properties the code reads: \<^verbatim>\<open>type\<close>, \<^verbatim>\<open>name\<close>,
  \<^verbatim>\<open>attributes\<close>, \<^verbatim>\<open>children\<close>, \<^verbatim>\<open>expression\<close>, \<^verbatim>\<open>codeChunks\<close>, \<^verbatim>\<open>raw\<close>, \<^verbatim>\<open>data\<close>,
  \<^verbatim>\<open>content\<close> (of an attribute segment), \<^verbatim>\<open>content.styles\<close> (of a style node) and
  \<^verbatim>\<open>value\<close> (of an attribute: \<^verbatim>\<open>true\<close>, \<^verbatim>\<open>false\<close>, \<^verbatim>\<open>undefined\<close> or a list of
  segments). Source positions serve the diagnostics only and are left out.
\<close>

datatype TemplateNode = TemplateNode
  (n_type: ntype) (n_name: "string option") (n_attributes: "TemplateNode list")
  (n_children: "TemplateNode list") (n_expression: "TemplateNode option")
  (n_codeChunks: "string list") (n_raw: "string option") (n_data: "string option")
  (n_content: "string option") (n_styles: "string option") (n_value: AttrValue)
and AttrValue = ValTrue | ValFalse | ValUndefined | ValNodes "TemplateNode list"

datatype js_error = Error string | TypeError string

text \<open>\<^verbatim>\<open>err.toString()\<close>\<close>

definition error_toString :: "js_error \<Rightarrow> string" where
  "error_toString e =
     (case e of
        Error m \<Rightarrow> (if m = [] then ''Error'' else ''Error: '' @ m)
      | TypeError m \<Rightarrow> (if m = [] then ''TypeError'' else ''TypeError: '' @ m))"

text \<open>
  What reaches the logging sink: \<^verbatim>\<open>error(logging, rel, text)\<close>,
  \<^verbatim>\<open>warn(logging, shortname, text)\<close> and \<^verbatim>\<open>parseError(logging, err)\<close> with the file
  name and the message of \<^verbatim>\<open>err\<close> (its position and code frame come from
  functions outside this file and are not modelled; colour codes are left out).
\<close>

datatype LogEntry = LogError string string | LogWarn string string | LogParseError string string

datatype ImportSpecifier =
    ImportDefaultSpecifier string
  | ImportSpecifier string string
  | ImportNamespaceSpecifier string

text \<open>The local name of a specifier (\<^verbatim>\<open>specifier.local.name\<close>).\<close>

definition local_name :: "ImportSpecifier \<Rightarrow> string" where
  "local_name sp =
     (case sp of ImportDefaultSpecifier l \<Rightarrow> l | ImportSpecifier l i \<Rightarrow> l
      | ImportNamespaceSpecifier l \<Rightarrow> l)"

record ComponentInfo =
  importSpecifier :: ImportSpecifier
  url :: string

text \<open>
  \<^verbatim>\<open>interface CodegenState\<close>. Maps and sets keep their insertion order, so they
  are lists; \<open>insideMarkdown\<close> is \<^verbatim>\<open>false\<close> (\<open>None\<close>) or the record of \<^verbatim>\<open>$scope\<close> and
  \<^verbatim>\<open>count\<close>. The field \<open>logged\<close> is the logging sink of the compile options.
\<close>

record CodegenState =
  components :: "(string \<times> ComponentInfo) list"
  css :: "string list"
  filename :: string
  fileID :: string
  insideMarkdown :: "(string option \<times> int) option"
  declarations :: "string list"
  exportStatements :: "string list"
  importStatements :: "string list"
  componentImports :: "(string \<times> string list) list"
  customElementCandidates :: "(string \<times> string) list"
  logged :: "LogEntry list"

text \<open>\<^verbatim>\<open>Set.prototype.add\<close> and \<^verbatim>\<open>Set.prototype.delete\<close>.\<close>

definition set_add :: "'a \<Rightarrow> 'a list \<Rightarrow> 'a list" where
  "set_add x xs = (if x \<in> set xs then xs else xs @ [x])"

definition set_delete :: "'a \<Rightarrow> 'a list \<Rightarrow> 'a list" where
  "set_delete x xs = removeAll x xs"

definition add_import :: "string \<Rightarrow> CodegenState \<Rightarrow> CodegenState" where
  "add_import line st = st\<lparr>importStatements := set_add line (importStatements st)\<rparr>"

definition log :: "LogEntry \<Rightarrow> CodegenState \<Rightarrow> CodegenState" where
  "log entry st = st\<lparr>logged := logged st @ [entry]\<rparr>"

text \<open>
  How a call ends. \<open>Returned\<close>: with a value. \<open>Thrown\<close>: an exception, which a
  \<^verbatim>\<open>try\<close> around the call catches. \<open>Pending\<close>: the promise is never settled;
  \<^verbatim>\<open>compileHtml\<close> wraps its walk in \<^verbatim>\<open>new Promise((resolve) => ...)\<close> and only
  resolves it, so when the walk rejects with an error the caller waits for
  ever and no \<^verbatim>\<open>catch\<close> runs. \<open>OutOfFuel\<close>: the model's bound on nested compiles
  was reached.
\<close>

datatype ('a, 's) outcome = Returned 'a 's | Thrown js_error 's | Pending js_error 's | OutOfFuel

definition and_then :: "('a, 's) outcome \<Rightarrow> ('a \<Rightarrow> 's \<Rightarrow> ('b, 's) outcome) \<Rightarrow> ('b, 's) outcome" where
  "and_then m f =
     (case m of Returned a s \<Rightarrow> f a s | Thrown e s \<Rightarrow> Thrown e s
      | Pending e s \<Rightarrow> Pending e s | OutOfFuel \<Rightarrow> OutOfFuel)"

type_synonym compile = "TemplateNode \<Rightarrow> CodegenState \<Rightarrow> (string, CodegenState) outcome"

text \<open>
  A message of esbuild: its text and its location (\<^verbatim>\<open>null\<close> when esbuild has
  none), of which the line, the column and the length are read.
\<close>

datatype esbuild_location = Location (loc_line: nat) (loc_column: nat) (loc_length: nat)

datatype esbuild_message = Message (m_text: string) (m_location: "esbuild_location option")

text \<open>
  The collaborators outside this file: esbuild's \<^verbatim>\<open>transformSync\<close> (the code, or
  the \<^verbatim>\<open>errors\<close> of the failure it throws), \<^verbatim>\<open>readFileSync\<close> of Node (the text of
  the file, or the error it throws), \<^verbatim>\<open>isComponentTag\<close> and \<^verbatim>\<open>isCustomElementTag\<close> of
  \<^verbatim>\<open>../utils.js\<close>, the Markdown pipeline of \<^verbatim>\<open>pushMarkdownToBuffer\<close> (\<^verbatim>\<open>dedent\<close>,
  \<^verbatim>\<open>renderMarkdown\<close>, \<^verbatim>\<open>parse\<close>, \<^verbatim>\<open>transform\<close>: from the buffered text and the scoped
  class name to the \<^verbatim>\<open>html\<close> root of the parsed result), \<^verbatim>\<open>getComponentUrl\<close> (built
  on Node's \<^verbatim>\<open>path\<close> and \<^verbatim>\<open>URL\<close>), the constant \<^verbatim>\<open>PRISM_IMPORT\<close>, whether the file is
  under the pages root, \<^verbatim>\<open>warnIfRelativeStringLiteral\<close> (the warnings it logs), the
  file name relative to the project root that \<^verbatim>\<open>path.posix.relative\<close> computes, and
  the path name of the project root (\<^verbatim>\<open>astroConfig.projectRoot.pathname\<close>).
\<close>

record Env =
  transformSync :: "string \<Rightarrow> esbuild_message list + string"
  readFileSync :: "string \<Rightarrow> js_error + string"
  isComponentTag :: "string \<Rightarrow> bool"
  isCustomElementTag :: "string \<Rightarrow> bool"
  renderMarkdown :: "string \<Rightarrow> string option \<Rightarrow> js_error + TemplateNode"
  getComponentUrl :: "string \<Rightarrow> string"
  PRISM_IMPORT :: string
  isPage :: bool
  warnIfRelativeStringLiteral :: "string \<Rightarrow> string \<Rightarrow> string \<Rightarrow> LogEntry list"
  shortname :: string
  projectRoot_pathname :: string

text \<open>
  \<^verbatim>\<open>str.replace(pattern, '')\<close> for a string pattern: the first occurrence of the
  pattern is removed. \<^verbatim>\<open>rel\<close> is \<^verbatim>\<open>filename.replace(astroConfig.projectRoot.pathname, '')\<close>.
\<close>

fun remove_first :: "string \<Rightarrow> string \<Rightarrow> string" where
  "remove_first pat [] = []"
| "remove_first pat (c # cs) =
     (if startsWith (c # cs) pat then drop (length pat) (c # cs) else c # remove_first pat cs)"

definition rel :: "Env \<Rightarrow> string \<Rightarrow> string" where
  "rel env fname = remove_first (projectRoot_pathname env) fname"

section \<open>Expressions and attributes\<close>

text \<open>
  \<^verbatim>\<open>transpileExpressionSafe\<close>: the transpiled code, or \<^verbatim>\<open>null\<close> after the error
  has been passed to \<^verbatim>\<open>parseError\<close>. The \<^verbatim>\<open>catch\<close> block reads the file again and
  then the location of the first error, and each of the two steps can raise
  before \<^verbatim>\<open>parseError\<close> is reached. (\<^verbatim>\<open>positionAt\<close> and \<^verbatim>\<open>codeFrameColumns\<close> are taken
  to return; the position and the frame they compute are not part of the log
  entry of the model, which keeps the file name and the message.)
\<close>

definition transpileExpressionSafe ::
  "Env \<Rightarrow> string \<Rightarrow> CodegenState \<Rightarrow> (string option, CodegenState) outcome" where
  "transpileExpressionSafe env raw st =
     (case transformSync env raw of
        Inr code \<Rightarrow> Returned (Some code) st
      | Inl errors \<Rightarrow>
          (case readFileSync env (filename st) of
             Inl err \<Rightarrow> Thrown err st
           | Inr file_text \<Rightarrow>
               (case errors of
                  [] \<Rightarrow> Thrown (TypeError ''Cannot read properties of undefined (reading location)'') st
                | e # es \<Rightarrow>
                    (case m_location e of
                       None \<Rightarrow> Thrown (TypeError ''Cannot read properties of null (reading line)'') st
                     | Some loc \<Rightarrow> Returned None (log (LogParseError (filename st) (m_text e)) st)))))"

text \<open>
  The children of an expression are compiled by \<^verbatim>\<open>compileHtml\<close> under
  \<^verbatim>\<open>Promise.all\<close>, which starts every compile before it waits for any of them:
  the walks of the children take turns on the one shared state. The model
  compiles the children one after the other, in order. That is the code's
  behaviour for an expression with at most one child; with more children the
  interleaving is not modelled (the order of what the children add to the
  shared sets, and the Markdown marker that one child reads while another is
  inside a Markdown region, can differ from the model). A child whose compile
  is never settled leaves the whole expression pending.
\<close>

fun compile_children :: "compile \<Rightarrow> TemplateNode list \<Rightarrow> CodegenState \<Rightarrow> (string list, CodegenState) outcome" where
  "compile_children rec [] st = Returned [] st"
| "compile_children rec (child # rest) st =
     (case rec child st of
        Returned s st1 \<Rightarrow>
          (case compile_children rec rest st1 of
             Returned ss st2 \<Rightarrow> Returned (s # ss) st2
           | Thrown e st2 \<Rightarrow> Thrown e st2
           | Pending e st2 \<Rightarrow> Pending e st2
           | OutOfFuel \<Rightarrow> OutOfFuel)
      | Thrown e st1 \<Rightarrow> Pending e st1
      | Pending e st1 \<Rightarrow> Pending e st1
      | OutOfFuel \<Rightarrow> OutOfFuel)"

text \<open>The loop that splices the compiled children between the code chunks.\<close>

fun interleave :: "string list \<Rightarrow> string list \<Rightarrow> string" where
  "interleave [] children = []"
| "interleave (chunk # chunks) [] = chunk @ interleave chunks []"
| "interleave (chunk # chunks) (child # children) = chunk @ child @ interleave chunks children"

text \<open>\<^verbatim>\<open>code.replace(/\;$/, '')\<close>\<close>

definition strip_semicolon :: "string \<Rightarrow> string" where
  "strip_semicolon s = (if s \<noteq> [] \<and> last s = CHR '';'' then butlast s else s)"

definition compileExpression :: "Env \<Rightarrow> compile \<Rightarrow> TemplateNode \<Rightarrow> CodegenState \<Rightarrow> (string, CodegenState) outcome" where
  "compileExpression env rec node st =
     and_then (compile_children rec (n_children node) st) (\<lambda>children st1.
       let raw = interleave (n_codeChunks node) children in
       and_then (transpileExpressionSafe env (''('' @ raw @ '')'') st1) (\<lambda>code st2.
         case code of
           None \<Rightarrow> Thrown (Error ''Unable to compile expression'') st2
         | Some code \<Rightarrow> Returned (strip_semicolon (trim code)) st2))"

text \<open>
  \<^verbatim>\<open>getTextFromAttribute\<close>; the result is \<^verbatim>\<open>undefined\<close> (\<open>None\<close>) for a mustache tag
  whose expression has no code chunk.
\<close>

definition getTextFromAttribute :: "TemplateNode \<Rightarrow> js_error + string option" where
  "getTextFromAttribute attr =
     (case n_type attr of
        Text \<Rightarrow>
          (case n_raw attr of
             Some r \<Rightarrow> Inr (Some r)
           | None \<Rightarrow>
               (case n_data attr of
                  Some d \<Rightarrow> Inr (Some d)
                | None \<Rightarrow> Inl (Error ''Unknown attribute type Text'')))
      | MustacheTag \<Rightarrow>
          (case n_expression attr of
             None \<Rightarrow> Inl (TypeError ''Cannot read properties of undefined (reading codeChunks)'')
           | Some e \<Rightarrow> Inr (case n_codeChunks e of [] \<Rightarrow> None | c # _ \<Rightarrow> Some c))
      | t \<Rightarrow> Inl (Error (''Unknown attribute type '' @ type_name t)))"

text \<open>\<^verbatim>\<open>Array.prototype.join\<close>\<close>

definition join :: "string \<Rightarrow> string list \<Rightarrow> string" where
  "join sep xs = (case xs of [] \<Rightarrow> [] | x # rest \<Rightarrow> x @ concat (map (\<lambda>y. sep @ y) rest))"

text \<open>
  The segments of a multi-segment attribute value: \<^verbatim>\<open>v.content\<close> when it is
  truthy, else the stringified text of the segment (\<^verbatim>\<open>join\<close> writes an undefined
  element as the empty string).
\<close>

fun segments :: "TemplateNode list \<Rightarrow> js_error + string list" where
  "segments [] = Inr []"
| "segments (v # vs) =
     (case (case n_content v of
              Some c \<Rightarrow> if c \<noteq> [] then Inr (Some c) else map_sum id (map_option JSON_stringify) (getTextFromAttribute v)
            | None \<Rightarrow> map_sum id (map_option JSON_stringify) (getTextFromAttribute v)) of
        Inl e \<Rightarrow> Inl e
      | Inr s \<Rightarrow>
          (case segments vs of
             Inl e \<Rightarrow> Inl e
           | Inr ss \<Rightarrow> Inr ((case s of None \<Rightarrow> [] | Some t \<Rightarrow> t) # ss)))"

definition attr_key :: "TemplateNode \<Rightarrow> string" where
  "attr_key attr = (case n_name attr of None \<Rightarrow> ''undefined'' | Some n \<Rightarrow> n)"

definition compile_attr_expression :: "Env \<Rightarrow> compile \<Rightarrow> TemplateNode option \<Rightarrow> CodegenState \<Rightarrow> (string, CodegenState) outcome" where
  "compile_attr_expression env rec e st =
     (case e of
        None \<Rightarrow> Thrown (TypeError ''Cannot read properties of undefined (reading children)'') st
      | Some ex \<Rightarrow> compileExpression env rec ex st)"

text \<open>
  One iteration of the loop of \<^verbatim>\<open>getAttributes\<close>. (For a segment of kind
  \<^verbatim>\<open>Text\<close> the text is never undefined; that branch of the model is not
  reached.)
\<close>

definition getAttribute :: "Env \<Rightarrow> compile \<Rightarrow> string \<Rightarrow> TemplateNode \<Rightarrow> attrs \<Rightarrow> CodegenState \<Rightarrow> (attrs, CodegenState) outcome" where
  "getAttribute env rec nodeName attr result st =
     (if n_type attr = Spread then
        and_then (compile_attr_expression env rec (n_expression attr) st) (\<lambda>code st1.
          Returned (if code \<noteq> [] then obj_set (''...('' @ code @ '')'') [] result else result) st1)
      else
        (case n_value attr of
           ValTrue \<Rightarrow> Returned (obj_set (attr_key attr) ''true'' result) st
         | ValFalse \<Rightarrow> Returned result st
         | ValUndefined \<Rightarrow> Returned result st
         | ValNodes [] \<Rightarrow> Returned (obj_set (attr_key attr) [CHR 0x22, CHR 0x22] result) st
         | ValNodes (v1 # v2 # vs) \<Rightarrow>
             (case segments (v1 # v2 # vs) of
                Inl e \<Rightarrow> Thrown e st
              | Inr segs \<Rightarrow> Returned (obj_set (attr_key attr) (''('' @ join ''+'' segs @ '')'') result) st)
         | ValNodes [val] \<Rightarrow>
             (case n_type val of
                MustacheTag \<Rightarrow>
                  and_then (compile_attr_expression env rec (n_expression val) st) (\<lambda>code st1.
                    Returned (if code \<noteq> [] then obj_set (attr_key attr) (''('' @ code @ '')'') result
                              else result) st1)
              | Text \<Rightarrow>
                  (case getTextFromAttribute val of
                     Inl e \<Rightarrow> Thrown e st
                   | Inr None \<Rightarrow> Returned result st
                   | Inr (Some text) \<Rightarrow>
                       Returned (obj_set (attr_key attr) (JSON_stringify text) result)
                         (if isPage env then st
                          else st\<lparr>logged := logged st
                                   @ warnIfRelativeStringLiteral env nodeName (attr_key attr) text\<rparr>))
              | AttributeShorthand \<Rightarrow>
                  Returned (obj_set (attr_key attr) (''('' @ attr_key attr @ '')'') result) st
              | t \<Rightarrow> Thrown (Error (''UNKNOWN: '' @ type_name t)) st)))"

fun getAttributes_loop :: "Env \<Rightarrow> compile \<Rightarrow> string \<Rightarrow> TemplateNode list \<Rightarrow> attrs \<Rightarrow> CodegenState \<Rightarrow> (attrs, CodegenState) outcome" where
  "getAttributes_loop env rec nodeName [] result st = Returned result st"
| "getAttributes_loop env rec nodeName (attr # rest) result st =
     (case getAttribute env rec nodeName attr result st of
        Returned result' st' \<Rightarrow> getAttributes_loop env rec nodeName rest result' st'
      | Thrown e st' \<Rightarrow> Thrown e st'
      | Pending e st' \<Rightarrow> Pending e st'
      | OutOfFuel \<Rightarrow> OutOfFuel)"

definition getAttributes :: "Env \<Rightarrow> compile \<Rightarrow> string \<Rightarrow> TemplateNode list \<Rightarrow> CodegenState \<Rightarrow> (attrs, CodegenState) outcome" where
  "getAttributes env rec nodeName attrs st = getAttributes_loop env rec nodeName attrs [] st"

section \<open>Component wrappers\<close>

text \<open>\<^verbatim>\<open>name.indexOf(':') > 0\<close>\<close>

definition has_legacy_colon :: "string \<Rightarrow> bool" where
  "has_legacy_colon name = (CHR '':'' \<in> set name \<and> hd name \<noteq> CHR '':'')"

definition nth_segment :: "char \<Rightarrow> nat \<Rightarrow> string \<Rightarrow> string option" where
  "nth_segment sep i s = (let segs = split_on sep s in if i < length segs then Some (segs ! i) else None)"

text \<open>\<^verbatim>\<open>hydration.value || 'null'\<close>\<close>

definition value_or_null :: "string option \<Rightarrow> string" where
  "value_or_null v = (case v of None \<Rightarrow> ''null'' | Some s \<Rightarrow> if s = [] then ''null'' else s)"

text \<open>\<^verbatim>\<open>JSON.stringify({ hydrate: method, displayName: _name })\<close>\<close>

definition json_registry_args :: "string option \<Rightarrow> string \<Rightarrow> string" where
  \<open>json_registry_args m displayName =
     ''{'' @ (case m of None \<Rightarrow> [] | Some h \<Rightarrow> ''"hydrate":'' @ JSON_stringify h @ '','')
       @ ''"displayName":'' @ JSON_stringify displayName @ ''}''\<close>

text \<open>\<^verbatim>\<open>getComponentExport\<close>, and \<^verbatim>\<open>JSON.stringify\<close> of its result.\<close>

definition getComponentExport :: "ImportSpecifier \<Rightarrow> string \<Rightarrow> string option" where
  "getComponentExport sp name0 =
     (case sp of
        ImportDefaultSpecifier l \<Rightarrow> Some ''default''
      | ImportSpecifier l imported \<Rightarrow> Some imported
      | ImportNamespaceSpecifier l \<Rightarrow> nth_segment (CHR ''.'') 1 name0)"

definition json_export :: "string option \<Rightarrow> string" where
  \<open>json_export v = (case v of None \<Rightarrow> ''{}'' | Some x \<Rightarrow> ''{"value":'' @ JSON_stringify x @ ''}'')\<close>

definition astro_component_import :: string where
  "astro_component_import = ''import {__astro_component} from 'astro/dist/internal/__astro_component.js';''"

definition element_registry_import :: string where
  "element_registry_import = ''import {AstroElementRegistry} from 'astro/dist/internal/element-registry.js';''"

definition slot_import :: string where
  "slot_import = ''import { __astro_slot } from 'astro/dist/internal/__astro_slot.js';''"

definition slot_content_import :: string where
  "slot_content_import = ''import { __astro_slot_content } from 'astro/dist/internal/__astro_slot.js';''"

text \<open>
  \<^verbatim>\<open>getComponentWrapper\<close>. The component info is \<open>None\<close> where the caller passes
  \<^verbatim>\<open>{}\<close>; reading its url or import specifier then raises.
\<close>

definition getComponentWrapper ::
  "Env \<Rightarrow> string \<Rightarrow> HydrationAttributes \<Rightarrow> ComponentInfo option \<Rightarrow> CodegenState
     \<Rightarrow> (string \<times> string list, CodegenState) outcome" where
  \<open>getComponentWrapper env name0 hydration info st =
     (let legacy = has_legacy_colon name0;
          name = (if legacy then (case nth_segment (CHR '':'') 0 name0 of Some n \<Rightarrow> n | None \<Rightarrow> name0)
                  else name0);
          m = (if legacy then nth_segment (CHR '':'') 1 name0 else hydr_method hydration);
          st1 = (if legacy
                 then log (LogWarn (shortname env)
                        (''Deprecation warning: Partial hydration now uses a directive syntax. Please update to "<''
                          @ name @ '' client:'' @ (case m of None \<Rightarrow> ''undefined'' | Some x \<Rightarrow> x) @ '' />"'')) st
                 else st)
      in if isCustomElementTag env name0 then
           Returned
             (''__astro_component(...__astro_element_registry.astroComponentArgs("'' @ name @ ''", ''
                @ json_registry_args m name0 @ ''))'',
              [element_registry_import, astro_component_import]) st1
         else if truthy m then
           (case info of
              None \<Rightarrow> Thrown (TypeError ''The "path" argument must be of type string. Received undefined'') st1
            | Some ci \<Rightarrow>
                (let componentUrl = getComponentUrl env (url ci);
                     componentExport = getComponentExport (importSpecifier ci) name0;
                     metadata = ''{ hydrate: "'' @ (case m of None \<Rightarrow> [] | Some x \<Rightarrow> x)
                       @ ''", displayName: "'' @ name @ ''", componentUrl: "'' @ componentUrl
                       @ ''", componentExport: '' @ json_export componentExport
                       @ '', value: '' @ value_or_null (hydr_value hydration) @ '' }'';
                     name' = (if m = Some ''only'' then ''Fragment'' else name)
                 in Returned (''__astro_component('' @ name' @ '', '' @ metadata @ '')'',
                              [astro_component_import]) st1))
         else
           (let metadata = ''{ hydrate: undefined, displayName: "'' @ name @ ''", value: ''
                  @ value_or_null (hydr_value hydration) @ '' }''
            in Returned (''__astro_component('' @ name @ '', '' @ metadata @ '')'',
                         [astro_component_import]) st1))\<close>

section \<open>The walk of \<^verbatim>\<open>compileHtml\<close>\<close>

datatype Buf = BufOut | BufMarkdown

text \<open>The local variables of \<^verbatim>\<open>compileHtml\<close> and the shared state.\<close>

record WalkState =
  paren :: int
  buffers_out :: string
  buffers_markdown :: string
  curr :: Buf
  state :: CodegenState

text \<open>\<^verbatim>\<open>buffers[curr] += text\<close>\<close>

definition append_curr :: "string \<Rightarrow> WalkState \<Rightarrow> WalkState" where
  "append_curr t w =
     (case curr w of
        BufOut \<Rightarrow> w\<lparr>buffers_out := buffers_out w @ t\<rparr>
      | BufMarkdown \<Rightarrow> w\<lparr>buffers_markdown := buffers_markdown w @ t\<rparr>)"

definition in_walk :: "WalkState \<Rightarrow> ('a, CodegenState) outcome \<Rightarrow> ('a, WalkState) outcome" where
  "in_walk w m =
     (case m of
        Returned a st \<Rightarrow> Returned a (w\<lparr>state := st\<rparr>)
      | Thrown e st \<Rightarrow> Thrown e (w\<lparr>state := st\<rparr>)
      | Pending e st \<Rightarrow> Pending e (w\<lparr>state := st\<rparr>)
      | OutOfFuel \<Rightarrow> OutOfFuel)"

text \<open>\<^verbatim>\<open>scopedClassName && scopedClassName.slice(1, -1)\<close>\<close>

definition scoped_arg :: "string option \<Rightarrow> string option" where
  "scoped_arg sc = map_option (\<lambda>s. butlast (tl s)) sc"

text \<open>
  \<^verbatim>\<open>pushMarkdownToBuffer\<close>. The nested compile runs on a copy of the state whose
  \<^verbatim>\<open>markers\<close> are fresh; the maps, sets and lists of the copy are the objects of
  the caller, so their changes are kept and only \<open>insideMarkdown\<close> is the
  caller's own.
\<close>

definition pushMarkdownToBuffer :: "Env \<Rightarrow> compile \<Rightarrow> WalkState \<Rightarrow> (unit, WalkState) outcome" where
  "pushMarkdownToBuffer env rec w =
     (let md = buffers_markdown w in
      if trim md = [] then
        Returned () (w\<lparr>buffers_out := buffers_out w @ '','' @ md, buffers_markdown := [], curr := BufOut\<rparr>)
      else
        (let scopedClassName = (case insideMarkdown (state w) of None \<Rightarrow> None | Some (sc, n) \<Rightarrow> sc) in
         case renderMarkdown env md (scoped_arg scopedClassName) of
           Inl e \<Rightarrow> Thrown e w
         | Inr ast_html \<Rightarrow>
             (case rec ast_html ((state w)\<lparr>insideMarkdown := None\<rparr>) of
                Returned result st' \<Rightarrow>
                  Returned () (w\<lparr>buffers_out := buffers_out w @ '','' @ result, buffers_markdown := [],
                                 curr := BufOut,
                                 state := st'\<lparr>insideMarkdown := insideMarkdown (state w)\<rparr>\<rparr>)
              | Thrown e st' \<Rightarrow> Pending e (w\<lparr>state := st'\<lparr>insideMarkdown := insideMarkdown (state w)\<rparr>\<rparr>)
              | Pending e st' \<Rightarrow> Pending e (w\<lparr>state := st'\<lparr>insideMarkdown := insideMarkdown (state w)\<rparr>\<rparr>)
              | OutOfFuel \<Rightarrow> OutOfFuel)))"

definition push_if_markdown :: "Env \<Rightarrow> compile \<Rightarrow> WalkState \<Rightarrow> (unit, WalkState) outcome" where
  "push_if_markdown env rec w =
     (if curr w = BufMarkdown then pushMarkdownToBuffer env rec w else Returned () w)"

text \<open>
  The block the source repeats for a truthy \<^verbatim>\<open>attributes.slot\<close>: the import, the
  opening of \<^verbatim>\<open>__astro_slot_content\<close> and one more open parenthesis.
\<close>

definition open_slot_content :: "attrs \<Rightarrow> WalkState \<Rightarrow> WalkState" where
  "open_slot_content attributes w =
     (case map_of attributes ''slot'' of
        None \<Rightarrow> w
      | Some slot \<Rightarrow>
          if slot = [] then w
          else (append_curr (''h(__astro_slot_content, { name: '' @ slot @ '' },'')
                  (w\<lparr>state := add_import slot_content_import (state w)\<rparr>))\<lparr>paren := paren w + 1\<rparr>)"


definition FALSY_EXPRESSIONS :: "string list" where
  "FALSY_EXPRESSIONS = [''false'', ''null'', ''undefined'', ''void 0'']"

definition isFrontmatterDefinedComponent :: "string \<Rightarrow> ComponentInfo option \<Rightarrow> CodegenState \<Rightarrow> bool" where
  "isFrontmatterDefinedComponent componentName componentInfo st =
     (let hasVariableDeclaration = componentName \<in> set (declarations st);
          isNotImported = (componentInfo = None)
      in hasVariableDeclaration \<and> isNotImported)"

definition isFragmentComponent :: "string \<Rightarrow> bool" where
  "isFragmentComponent componentName = (componentName = ''Fragment'')"

text \<open>The case \<^verbatim>\<open>'Prism'\<close> of the inner switch on \<^verbatim>\<open>node.name\<close>.\<close>

definition prism_case :: "Env \<Rightarrow> TemplateNode \<Rightarrow> CodegenState \<Rightarrow> CodegenState" where
  "prism_case env node st =
     (if n_name node = Some ''Prism'' then
        (let st1 = add_import (PRISM_IMPORT env) st in
         if ''Prism'' \<in> fst ` set (components st1) then st1
         else st1\<lparr>components := AList.update ''Prism''
                     \<lparr>importSpecifier = ImportDefaultSpecifier ''Prism'',
                      url = ''astro/components/Prism.astro''\<rparr> (components st1)\<rparr>)
      else st)"

text \<open>\<^verbatim>\<open>name.split(':')[0]\<close> and the component info the tag resolves to.\<close>

definition component_name :: "string \<Rightarrow> string" where
  "component_name name = (case split_on (CHR '':'') name of [] \<Rightarrow> [] | seg # _ \<Rightarrow> seg)"

definition lookup_component :: "string \<Rightarrow> CodegenState \<Rightarrow> ComponentInfo option" where
  "lookup_component componentName st =
     (if CHR ''.'' \<in> set componentName
      then map_of (components st) (case split_on (CHR ''.'') componentName of [] \<Rightarrow> [] | ns # _ \<Rightarrow> ns)
      else map_of (components st) componentName)"

text \<open>The branch of a tag that is not a component tag.\<close>

definition enter_html_element :: "Env \<Rightarrow> compile \<Rightarrow> string \<Rightarrow> attrs \<Rightarrow> WalkState \<Rightarrow> (unit, WalkState) outcome" where
  \<open>enter_html_element env rec name attributes w =
     and_then (push_if_markdown env rec w) (\<lambda>u w1.
       let w2 = open_slot_content attributes w1;
           w3 = append_curr (''h("'' @ name @ ''", '' @ generateAttributes attributes @ '','') w2
       in Returned () (w3\<lparr>paren := paren w3 + 1\<rparr>))\<close>

text \<open>The branch of a component defined in the frontmatter, and of \<^verbatim>\<open>Fragment\<close>.\<close>

definition enter_static_component ::
  "Env \<Rightarrow> compile \<Rightarrow> string \<Rightarrow> attrs \<Rightarrow> HydrationAttributes \<Rightarrow> WalkState \<Rightarrow> (unit, WalkState) outcome" where
  \<open>enter_static_component env rec componentName attributes hydrationAttributes w =
     (if truthy (hydr_method hydrationAttributes) then
        Thrown (Error (''Unable to hydrate "'' @ componentName
          @ ''" because it is statically defined in the frontmatter script. Hydration directives may only be used on imported components.'')) w
      else
        and_then (push_if_markdown env rec w) (\<lambda>u w1.
          let w2 = open_slot_content attributes w1;
              w3 = append_curr (''h('' @ componentName @ '', '' @ generateAttributes attributes @ '','') w2
          in Returned () (w3\<lparr>paren := paren w3 + 1\<rparr>)))\<close>

text \<open>The branch \<^verbatim>\<open>componentName === 'Markdown'\<close>.\<close>

definition enter_markdown :: "Env \<Rightarrow> compile \<Rightarrow> string \<Rightarrow> attrs \<Rightarrow> WalkState \<Rightarrow> (unit, WalkState) outcome" where
  "enter_markdown env rec componentName attributes w =
     (let scope = map_of attributes ''$scope'';
          w1 = w\<lparr>state := (state w)\<lparr>insideMarkdown :=
                  (case insideMarkdown (state w) of
                     Some (sc, n) \<Rightarrow> Some (scope, n + 1)
                   | None \<Rightarrow> Some (scope, 1))\<rparr>\<rparr>;
          keys = filter (\<lambda>attr. attr \<noteq> ''$scope'') (map fst attributes)
      in if length keys > 0 then
           and_then (push_if_markdown env rec w1) (\<lambda>u w2.
             Returned () ((append_curr ('','' @ componentName @ ''.__render('' @ generateAttributes attributes @ ''),'') w2)
                            \<lparr>curr := BufMarkdown\<rparr>))
         else Returned () (w1\<lparr>curr := BufMarkdown\<rparr>))"

text \<open>The rest of the \<^verbatim>\<open>try\<close> block: an imported component or a custom element.\<close>

definition enter_imported_component ::
  "Env \<Rightarrow> compile \<Rightarrow> string \<Rightarrow> string \<Rightarrow> ComponentInfo option \<Rightarrow> attrs \<Rightarrow> HydrationAttributes
     \<Rightarrow> WalkState \<Rightarrow> (unit, WalkState) outcome" where
  "enter_imported_component env rec name componentName componentInfo attributes hydrationAttributes w =
     and_then (in_walk w (getComponentWrapper env name hydrationAttributes componentInfo (state w)))
       (\<lambda>(wrapper, wrapperImports) w1.
          let w2 = w1\<lparr>state := fold add_import wrapperImports (state w1)\<rparr>;
              w3 = (if hydr_method hydrationAttributes = Some ''only'' then
                      (let componentImports =
                             (case map_of (componentImports (state w2)) componentName of
                                None \<Rightarrow> [] | Some l \<Rightarrow> l)
                       in w2\<lparr>state := (state w2)\<lparr>importStatements :=
                               fold set_delete componentImports (importStatements (state w2))\<rparr>\<rparr>)
                    else w2)
          in and_then (push_if_markdown env rec w3) (\<lambda>u w4.
               let w5 = open_slot_content attributes w4;
                   w6 = w5\<lparr>paren := paren w5 + 1\<rparr>
               in Returned () (append_curr (''h('' @ wrapper @ '', '' @ generateAttributes attributes) w6)))"

text \<open>The \<^verbatim>\<open>try\<close> block of the element cases.\<close>

definition element_try :: "Env \<Rightarrow> compile \<Rightarrow> TemplateNode \<Rightarrow> string \<Rightarrow> WalkState \<Rightarrow> (unit, WalkState) outcome" where
  \<open>element_try env rec node name w =
     and_then (in_walk w (getAttributes env rec name (n_attributes node) (state w))) (\<lambda>attributes w1.
       let hydrationAttributes = findHydrationAttributes attributes;
           w2 = w1\<lparr>buffers_out := buffers_out w1 @ (if buffers_out w1 = [] then [] else '','')\<rparr>
       in if n_type node = Slot then
            (let w3 = append_curr (''h(__astro_slot, '' @ generateAttributes attributes @ '', children'')
                        (w2\<lparr>state := add_import slot_import (state w2)\<rparr>)
             in Returned () (w3\<lparr>paren := paren w3 + 1\<rparr>))
          else if \<not> isComponentTag env name then enter_html_element env rec name attributes w2
          else
            (let componentName = component_name name;
                 componentInfo = lookup_component componentName (state w2)
             in if (isFrontmatterDefinedComponent componentName componentInfo (state w2)
                      \<and> \<not> isCustomElementTag env componentName)
                   \<or> isFragmentComponent componentName
                then enter_static_component env rec componentName attributes hydrationAttributes w2
                else if componentInfo = None \<and> \<not> isCustomElementTag env componentName
                then Thrown (Error (''Unable to render "'' @ componentName @ ''" because it is undefined''
                       @ [CHR 0x0A] @ ''  '' @ filename (state w2))) w2
                else if componentName = ''Markdown''
                then enter_markdown env rec componentName attributes w2
                else enter_imported_component env rec name componentName componentInfo attributes
                       hydrationAttributes w2))\<close>

text \<open>
  The cases \<^verbatim>\<open>Title\<close> and \<^verbatim>\<open>Element\<close> of \<^verbatim>\<open>enter\<close>, into which \<^verbatim>\<open>Slot\<close>, \<^verbatim>\<open>Head\<close>
  and \<^verbatim>\<open>InlineComponent\<close> fall through: the check of the name, the \<^verbatim>\<open>try\<close> block
  and its \<^verbatim>\<open>catch\<close>, which lowers \<^verbatim>\<open>paren\<close> and logs the error.
\<close>

definition enter_element :: "Env \<Rightarrow> compile \<Rightarrow> TemplateNode \<Rightarrow> WalkState \<Rightarrow> (bool, WalkState) outcome" where
  "enter_element env rec node w =
     (if \<not> truthy (n_name node) then Thrown (Error ''AHHHH'') w
      else
        (case element_try env rec node (case n_name node of None \<Rightarrow> [] | Some n \<Rightarrow> n) w of
           Returned u w' \<Rightarrow> Returned False w'
         | Thrown err w' \<Rightarrow>
             Returned False (w'\<lparr>paren := paren w' - 1,
                               state := log (LogError (rel env (filename (state w'))) (error_toString err)) (state w')\<rparr>)
         | Pending e w' \<Rightarrow> Pending e w'
         | OutOfFuel \<Rightarrow> OutOfFuel))"

text \<open>\<^verbatim>\<open>text.replace(/ASTRO_ESCAPED_LEFT_CURLY_BRACKET\0/g, '{')\<close>\<close>

definition escaped_curly :: string where
  "escaped_curly = ''ASTRO_ESCAPED_LEFT_CURLY_BRACKET'' @ [CHR 0x00]"

function unescape_curly :: "string \<Rightarrow> string" where
  "unescape_curly s =
     (if s = [] then []
      else if startsWith s escaped_curly then CHR ''{'' # unescape_curly (drop (length escaped_curly) s)
      else hd s # unescape_curly (tl s))"
  by pat_completeness auto
termination
  by (relation "measure length") (auto simp: escaped_curly_def)

declare unescape_curly.simps [simp del]

definition enter_text :: "TemplateNode \<Rightarrow> TemplateNode option \<Rightarrow> WalkState \<Rightarrow> (bool, WalkState) outcome" where
  "enter_text node parent w =
     (case getTextFromAttribute node of
        Inl e \<Rightarrow> Thrown e w
      | Inr None \<Rightarrow> Thrown (TypeError ''Cannot read properties of undefined (reading trim)'') w
      | Inr (Some text) \<Rightarrow>
          if insideMarkdown (state w) \<noteq> None then
            Returned False (append_curr text (if curr w = BufOut then w\<lparr>curr := BufMarkdown\<rparr> else w))
          else
            (case parent of
               None \<Rightarrow> Thrown (TypeError ''Cannot read properties of null (reading name)'') w
             | Some p \<Rightarrow>
                 if n_name p \<noteq> Some ''Markdown'' \<and> trim text = [] then Returned False w
                 else if n_name p = Some ''code'' then
                   (case n_raw node of
                      None \<Rightarrow> Thrown (TypeError ''Cannot read properties of undefined (reading replace)'') w
                    | Some r \<Rightarrow> Returned False (append_curr ('','' @ JSON_stringify (unescape_curly r)) w))
                 else Returned False (append_curr ('','' @ JSON_stringify text) w)))"

text \<open>
  The hook \<^verbatim>\<open>enter\<close>. The boolean of the result says whether \<^verbatim>\<open>this.skip()\<close>
  was called.
\<close>

definition enter :: "Env \<Rightarrow> compile \<Rightarrow> TemplateNode \<Rightarrow> TemplateNode option \<Rightarrow> WalkState \<Rightarrow> (bool, WalkState) outcome" where
  "enter env rec node parent w =
     (case n_type node of
        Expression \<Rightarrow>
          and_then (in_walk w (compileExpression env rec node (state w))) (\<lambda>code w1.
            if code \<in> set FALSY_EXPRESSIONS then Returned True w1
            else if code \<noteq> [] then
              (if insideMarkdown (state w1) \<noteq> None
               then Returned True (append_curr (''{'' @ code @ ''}'') w1)
               else Returned True (append_curr ('',('' @ code @ '')'') w1))
            else Returned True w1)
      | MustacheTag \<Rightarrow>
          Returned False
            (if insideMarkdown (state w) \<noteq> None \<and> curr w = BufOut then w\<lparr>curr := BufMarkdown\<rparr> else w)
      | Comment \<Rightarrow> Returned False w
      | Fragment \<Rightarrow> Returned False (append_curr ''h(Fragment, null,'' w)
      | SlotTemplate \<Rightarrow>
          (let w1 = append_curr ''h(Fragment, null, children'' w
           in Returned False (w1\<lparr>paren := paren w1 + 1\<rparr>))
      | Slot \<Rightarrow> enter_element env rec node (w\<lparr>state := prism_case env node (state w)\<rparr>)
      | Head \<Rightarrow> enter_element env rec node (w\<lparr>state := prism_case env node (state w)\<rparr>)
      | InlineComponent \<Rightarrow> enter_element env rec node (w\<lparr>state := prism_case env node (state w)\<rparr>)
      | Title \<Rightarrow> enter_element env rec node w
      | Element \<Rightarrow> enter_element env rec node w
      | Attribute \<Rightarrow> Returned True w
      | Spread \<Rightarrow> Returned True w
      | Style \<Rightarrow>
          (case n_styles node of
             None \<Rightarrow> Thrown (TypeError ''Cannot read properties of undefined (reading styles)'') w
           | Some styles \<Rightarrow> Returned True (w\<lparr>state := (state w)\<lparr>css := css (state w) @ [styles]\<rparr>\<rparr>))
      | CodeSpan \<Rightarrow>
          (if insideMarkdown (state w) \<noteq> None then
             Returned False (append_curr (case n_raw node of None \<Rightarrow> ''undefined'' | Some r \<Rightarrow> r)
               (if curr w = BufOut then w\<lparr>curr := BufMarkdown\<rparr> else w))
           else Returned False (append_curr ('','' @ (case n_data node of None \<Rightarrow> ''undefined'' | Some d \<Rightarrow> JSON_stringify d)) w))
      | CodeFence \<Rightarrow>
          (if insideMarkdown (state w) \<noteq> None then
             Returned False (append_curr (case n_raw node of None \<Rightarrow> ''undefined'' | Some r \<Rightarrow> r)
               (if curr w = BufOut then w\<lparr>curr := BufMarkdown\<rparr> else w))
           else Returned False (append_curr ('','' @ (case n_data node of None \<Rightarrow> ''undefined'' | Some d \<Rightarrow> JSON_stringify d)) w))
      | Text \<Rightarrow> enter_text node parent w
      | t \<Rightarrow> Thrown (Error (''Unexpected (enter) node type: '' @ type_name t)) w)"

text \<open>\<^verbatim>\<open>node.attributes.find((attr) => attr.name === 'slot')\<close>\<close>

definition has_slot_attribute :: "TemplateNode \<Rightarrow> bool" where
  "has_slot_attribute node = list_ex (\<lambda>attr. n_name attr = Some ''slot'') (n_attributes node)"

text \<open>The closing parentheses that both element cases of \<^verbatim>\<open>leave\<close> write.\<close>

definition close_parens :: "TemplateNode \<Rightarrow> WalkState \<Rightarrow> WalkState" where
  "close_parens node w =
     (let w1 = (if has_slot_attribute node
                then w\<lparr>buffers_out := buffers_out w @ '')'', paren := paren w - 1\<rparr> else w)
      in if paren w1 \<noteq> - 1
         then w1\<lparr>buffers_out := buffers_out w1 @ '')'', paren := paren w1 - 1\<rparr> else w1)"

text \<open>
  The case \<^verbatim>\<open>InlineComponent\<close> of \<^verbatim>\<open>leave\<close>. Lowering \<^verbatim>\<open>count\<close> on \<^verbatim>\<open>false\<close> raises
  (the module is strict code).
\<close>

definition leave_inline_component :: "Env \<Rightarrow> compile \<Rightarrow> TemplateNode \<Rightarrow> WalkState \<Rightarrow> (unit, WalkState) outcome" where
  "leave_inline_component env rec node w =
     (let after_markdown = (\<lambda>w1.
            if curr w1 = BufMarkdown \<and> buffers_markdown w1 \<noteq> [] then
              and_then (pushMarkdownToBuffer env rec w1) (\<lambda>u w2.
                if insideMarkdown (state w2) = None then Returned () w2
                else Returned () (close_parens node w2))
            else Returned () (close_parens node w1))
      in if n_name node = Some ''Markdown'' then
           (case insideMarkdown (state w) of
              None \<Rightarrow> Thrown (TypeError ''Cannot create property count on boolean false'') w
            | Some (sc, n) \<Rightarrow>
                (let w1 = w\<lparr>state := (state w)\<lparr>insideMarkdown :=
                            (if n - 1 \<le> 0 then None else Some (sc, n - 1))\<rparr>\<rparr>;
                     hasAttrs = length (filter (\<lambda>attr. n_name attr \<noteq> Some ''$scope'') (n_attributes node)) > 0
                 in if hasAttrs then Returned () w1 else after_markdown w1))
         else after_markdown w)"

text \<open>The hook \<^verbatim>\<open>leave\<close>.\<close>

definition leave_element :: "Env \<Rightarrow> compile \<Rightarrow> TemplateNode \<Rightarrow> WalkState \<Rightarrow> (unit, WalkState) outcome" where
  "leave_element env rec node w =
     and_then (push_if_markdown env rec w) (\<lambda>u w1. Returned () (close_parens node w1))"

definition leave :: "Env \<Rightarrow> compile \<Rightarrow> TemplateNode \<Rightarrow> WalkState \<Rightarrow> (unit, WalkState) outcome" where
  "leave env rec node w =
     (case n_type node of
        Fragment \<Rightarrow> Returned () (append_curr '')'' w)
      | Text \<Rightarrow> Returned () w
      | Attribute \<Rightarrow> Returned () w
      | Spread \<Rightarrow> Returned () w
      | Comment \<Rightarrow> Returned () w
      | Expression \<Rightarrow> Returned () w
      | MustacheTag \<Rightarrow> Returned () w
      | CodeSpan \<Rightarrow> Returned () w
      | CodeFence \<Rightarrow> Returned () w
      | SlotTemplate \<Rightarrow> leave_element env rec node w
      | Slot \<Rightarrow> leave_element env rec node w
      | Head \<Rightarrow> leave_element env rec node w
      | Body \<Rightarrow> leave_element env rec node w
      | Title \<Rightarrow> leave_element env rec node w
      | Element \<Rightarrow> leave_element env rec node w
      | InlineComponent \<Rightarrow> leave_inline_component env rec node w
      | Style \<Rightarrow> Returned () w
      | t \<Rightarrow> Thrown (Error (''Unexpected (leave) node type: '' @ type_name t)) w)"

text \<open>
  \<^verbatim>\<open>asyncWalk\<close>: \<^verbatim>\<open>enter\<close>, then (unless the node was skipped, in which case
  \<^verbatim>\<open>leave\<close> is not called either) the nodes under the properties of the node in
  the order \<^verbatim>\<open>attributes\<close>, \<^verbatim>\<open>expression\<close>, \<^verbatim>\<open>children\<close>, then \<^verbatim>\<open>leave\<close>. An error of
  a hook rejects the walk.
\<close>

fun visit :: "Env \<Rightarrow> compile \<Rightarrow> TemplateNode option \<Rightarrow> TemplateNode \<Rightarrow> WalkState \<Rightarrow> (unit, WalkState) outcome"
  and visit_list :: "Env \<Rightarrow> compile \<Rightarrow> TemplateNode \<Rightarrow> TemplateNode list \<Rightarrow> WalkState \<Rightarrow> (unit, WalkState) outcome"
  and visit_option :: "Env \<Rightarrow> compile \<Rightarrow> TemplateNode \<Rightarrow> TemplateNode option \<Rightarrow> WalkState \<Rightarrow> (unit, WalkState) outcome"
where
  "visit env rec parent (TemplateNode ty nm as cs ex ch rw dt ct sy vl) w =
     (let node = TemplateNode ty nm as cs ex ch rw dt ct sy vl in
      case enter env rec node parent w of
        Returned skipped w1 \<Rightarrow>
          if skipped then Returned () w1
          else
            (case visit_list env rec node as w1 of
               Returned u2 w2 \<Rightarrow>
                 (case visit_option env rec node ex w2 of
                    Returned u3 w3 \<Rightarrow>
                      (case visit_list env rec node cs w3 of
                         Returned u4 w4 \<Rightarrow> leave env rec node w4
                       | Thrown e w4 \<Rightarrow> Thrown e w4
                       | Pending e w4 \<Rightarrow> Pending e w4
                       | OutOfFuel \<Rightarrow> OutOfFuel)
                  | Thrown e w3 \<Rightarrow> Thrown e w3
                  | Pending e w3 \<Rightarrow> Pending e w3
                  | OutOfFuel \<Rightarrow> OutOfFuel)
             | Thrown e w2 \<Rightarrow> Thrown e w2
             | Pending e w2 \<Rightarrow> Pending e w2
             | OutOfFuel \<Rightarrow> OutOfFuel)
      | Thrown e w1 \<Rightarrow> Thrown e w1
      | Pending e w1 \<Rightarrow> Pending e w1
      | OutOfFuel \<Rightarrow> OutOfFuel)"
| "visit_list env rec parent [] w = Returned () w"
| "visit_list env rec parent (n # ns) w =
     (case visit env rec (Some parent) n w of
        Returned u w1 \<Rightarrow> visit_list env rec parent ns w1
      | Thrown e w1 \<Rightarrow> Thrown e w1
      | Pending e w1 \<Rightarrow> Pending e w1
      | OutOfFuel \<Rightarrow> OutOfFuel)"
| "visit_option env rec parent None w = Returned () w"
| "visit_option env rec parent (Some n) w = visit env rec (Some parent) n w"

text \<open>The four rewrites of the finished buffer.\<close>

definition strip_leading_comma :: "string \<Rightarrow> string" where
  "strip_leading_comma s = (case s of [] \<Rightarrow> [] | c # cs \<Rightarrow> if c = CHR '','' then cs else s)"

fun comma_paren :: "string \<Rightarrow> string" where
  "comma_paren (c # d # cs) =
     (if c = CHR '','' \<and> d = CHR '')'' then CHR '')'' # comma_paren cs else c # comma_paren (d # cs))"
| "comma_paren cs = cs"

fun collapse_commas :: "string \<Rightarrow> string" where
  "collapse_commas (c # d # cs) =
     (if c = CHR '','' \<and> d = CHR '','' then collapse_commas (d # cs) else c # collapse_commas (d # cs))"
| "collapse_commas cs = cs"

fun paren_h :: "string \<Rightarrow> string" where
  "paren_h (c # d # cs) =
     (if c = CHR '')'' \<and> d = CHR ''h'' then CHR '')'' # CHR '','' # CHR ''h'' # paren_h cs
      else c # paren_h (d # cs))"
| "paren_h cs = cs"

definition cleanup :: "string \<Rightarrow> string" where
  "cleanup out = paren_h (collapse_commas (comma_paren (strip_leading_comma out)))"

text \<open>
  \<^verbatim>\<open>compileHtml\<close>, given the function \<open>rec\<close> that stands for its nested calls. The
  promise is resolved with the cleaned buffer when the walk ends; when the
  walk rejects it stays pending.
\<close>

definition initial_walk :: "CodegenState \<Rightarrow> WalkState" where
  "initial_walk st = \<lparr>paren = - 1, buffers_out = [], buffers_markdown = [], curr = BufOut, state = st\<rparr>"

definition compileHtml :: "Env \<Rightarrow> compile \<Rightarrow> compile" where
  "compileHtml env rec enterNode st =
     (case visit env rec None enterNode (initial_walk st) of
        Returned u w \<Rightarrow> Returned (cleanup (buffers_out w)) (state w)
      | Thrown e w \<Rightarrow> Pending e (state w)
      | Pending e w \<Rightarrow> Pending e (state w)
      | OutOfFuel \<Rightarrow> OutOfFuel)"

text \<open>
  The recursion of \<^verbatim>\<open>compileHtml\<close> through expressions and flushed Markdown,
  bounded by the number of compiles nested in one another.
\<close>

primrec compileHtml_fuel :: "nat \<Rightarrow> Env \<Rightarrow> compile" where
  "compileHtml_fuel 0 env = (\<lambda>node st. OutOfFuel)"
| "compileHtml_fuel (Suc n) env = compileHtml env (compileHtml_fuel n env)"

section \<open>The frontmatter: \<^verbatim>\<open>compileModule\<close>\<close>

text \<open>
  The Babel AST as far as the code inspects it. An expression is an
  identifier, a string literal, a meta property, a member expression (object,
  property, \<^verbatim>\<open>computed\<close>), a call (callee, arguments) or any other node with its
  child nodes in the order of traversal.
\<close>

datatype jexpr =
    Identifier string
  | StringLiteral string
  | MetaProperty string string
  | MemberExpression jexpr jexpr bool
  | CallExpression jexpr "jexpr list"
  | OtherNode string "jexpr list"

text \<open>A declarator: its \<^verbatim>\<open>id\<close> (an identifier or a pattern) and its initialiser.\<close>

datatype declarator = VariableDeclarator (d_id: jexpr) (d_init: "jexpr option")

text \<open>
  A top-level statement, or the declaration of a named export. Imports and
  exports carry the \<^verbatim>\<open>start\<close> and \<^verbatim>\<open>end\<close> of their source range.
\<close>

datatype statement =
    ExportNamedDeclaration "statement option" "nat option" "nat option"
  | FunctionDeclaration "string option" "jexpr list"
  | ImportDeclaration "ImportSpecifier list" string "nat option" "nat option"
  | VariableDeclaration "declarator list"
  | OtherStatement string "jexpr list"

text \<open>\<^verbatim>\<open>(node as any).name\<close>\<close>

definition name_of :: "jexpr \<Rightarrow> string option" where
  "name_of e = (case e of Identifier n \<Rightarrow> Some n | _ \<Rightarrow> None)"

text \<open>The test of the visitor: a call whose callee is \<^verbatim>\<open>Astro.fetchContent\<close>.\<close>

definition is_fetchContent :: "jexpr \<Rightarrow> bool" where
  "is_fetchContent callee =
     (case callee of
        MemberExpression obj prop computed \<Rightarrow>
          name_of obj = Some ''Astro'' \<and> name_of prop = Some ''fetchContent''
      | _ \<Rightarrow> False)"

definition is_StringLiteral :: "jexpr \<Rightarrow> bool" where
  "is_StringLiteral e = (case e of StringLiteral s \<Rightarrow> True | _ \<Rightarrow> False)"

definition globEager :: jexpr where
  "globEager = MemberExpression (MetaProperty ''import'' ''meta'') (Identifier ''globEager'') False"

definition fetchContent_error :: "string \<Rightarrow> js_error" where
  "fetchContent_error fname =
     Error (''[Astro.fetchContent] Only string literals allowed, ex: `Astro.fetchContent('./post/*.md')`''
            @ [CHR 0x0A] @ ''  '' @ fname)"

text \<open>
  The traversal with the visitor \<^verbatim>\<open>enter\<close>: a matching call gets its arguments
  replaced before its children (the callee, then the new argument) are
  visited; the first error ends the traversal.
\<close>

fun rewrite_expr :: "string \<Rightarrow> jexpr \<Rightarrow> js_error + jexpr"
  and rewrite_exprs :: "string \<Rightarrow> jexpr list \<Rightarrow> js_error + jexpr list" where
  "rewrite_expr fname (Identifier n) = Inr (Identifier n)"
| "rewrite_expr fname (StringLiteral s) = Inr (StringLiteral s)"
| "rewrite_expr fname (MetaProperty m p) = Inr (MetaProperty m p)"
| "rewrite_expr fname (MemberExpression obj prop computed) =
     (case rewrite_expr fname obj of
        Inl e \<Rightarrow> Inl e
      | Inr obj' \<Rightarrow>
          (case rewrite_expr fname prop of
             Inl e \<Rightarrow> Inl e
           | Inr prop' \<Rightarrow> Inr (MemberExpression obj' prop' computed)))"
| "rewrite_expr fname (CallExpression callee args) =
     (if is_fetchContent callee then
        (case args of
           [] \<Rightarrow> Inl (TypeError ''Cannot read properties of undefined (reading type)'')
         | a # rest \<Rightarrow>
             if \<not> is_StringLiteral a then Inl (fetchContent_error fname)
             else
               (case rewrite_expr fname callee of
                  Inl e \<Rightarrow> Inl e
                | Inr callee' \<Rightarrow>
                    (case rewrite_exprs fname args of
                       Inl e \<Rightarrow> Inl e
                     | Inr args' \<Rightarrow> Inr (CallExpression callee' [CallExpression globEager args']))))
      else
        (case rewrite_expr fname callee of
           Inl e \<Rightarrow> Inl e
         | Inr callee' \<Rightarrow>
             (case rewrite_exprs fname args of
                Inl e \<Rightarrow> Inl e
              | Inr args' \<Rightarrow> Inr (CallExpression callee' args'))))"
| "rewrite_expr fname (OtherNode kind kids) =
     (case rewrite_exprs fname kids of Inl e \<Rightarrow> Inl e | Inr kids' \<Rightarrow> Inr (OtherNode kind kids'))"
| "rewrite_exprs fname [] = Inr []"
| "rewrite_exprs fname (e # es) =
     (case rewrite_expr fname e of
        Inl err \<Rightarrow> Inl err
      | Inr e' \<Rightarrow> (case rewrite_exprs fname es of Inl err \<Rightarrow> Inl err | Inr es' \<Rightarrow> Inr (e' # es')))"

fun rewrite_declarators :: "string \<Rightarrow> declarator list \<Rightarrow> js_error + declarator list" where
  "rewrite_declarators fname [] = Inr []"
| "rewrite_declarators fname (VariableDeclarator i init # ds) =
     (case rewrite_expr fname i of
        Inl e \<Rightarrow> Inl e
      | Inr i' \<Rightarrow>
          (case (case init of None \<Rightarrow> Inr None | Some x \<Rightarrow> map_sum id Some (rewrite_expr fname x)) of
             Inl e \<Rightarrow> Inl e
           | Inr init' \<Rightarrow>
               (case rewrite_declarators fname ds of
                  Inl e \<Rightarrow> Inl e
                | Inr ds' \<Rightarrow> Inr (VariableDeclarator i' init' # ds'))))"

fun rewrite_statement :: "string \<Rightarrow> statement \<Rightarrow> js_error + statement" where
  "rewrite_statement fname (ExportNamedDeclaration None a b) = Inr (ExportNamedDeclaration None a b)"
| "rewrite_statement fname (ExportNamedDeclaration (Some d) a b) =
     (case rewrite_statement fname d of
        Inl e \<Rightarrow> Inl e
      | Inr d' \<Rightarrow> Inr (ExportNamedDeclaration (Some d') a b))"
| "rewrite_statement fname (FunctionDeclaration n kids) =
     (case rewrite_exprs fname kids of Inl e \<Rightarrow> Inl e | Inr kids' \<Rightarrow> Inr (FunctionDeclaration n kids'))"
| "rewrite_statement fname (ImportDeclaration sps src a b) = Inr (ImportDeclaration sps src a b)"
| "rewrite_statement fname (VariableDeclaration ds) =
     (case rewrite_declarators fname ds of Inl e \<Rightarrow> Inl e | Inr ds' \<Rightarrow> Inr (VariableDeclaration ds'))"
| "rewrite_statement fname (OtherStatement kind kids) =
     (case rewrite_exprs fname kids of Inl e \<Rightarrow> Inl e | Inr kids' \<Rightarrow> Inr (OtherStatement kind kids'))"

fun rewrite_body :: "string \<Rightarrow> statement list \<Rightarrow> js_error + statement list" where
  "rewrite_body fname [] = Inr []"
| "rewrite_body fname (s # ss) =
     (case rewrite_statement fname s of
        Inl e \<Rightarrow> Inl e
      | Inr s' \<Rightarrow> (case rewrite_body fname ss of Inl e \<Rightarrow> Inl e | Inr ss' \<Rightarrow> Inr (s' # ss')))"

text \<open>\<^verbatim>\<open>/Astro\s*\.\s*fetchContent/.test(module.content)\<close>\<close>

definition fetchContent_at :: "string \<Rightarrow> bool" where
  "fetchContent_at s =
     (startsWith s ''Astro'' \<and>
      (let r = dropWhile is_space (drop 5 s)
       in r \<noteq> [] \<and> hd r = CHR ''.'' \<and> startsWith (dropWhile is_space (tl r)) ''fetchContent''))"

fun mentions_fetchContent :: "string \<Rightarrow> bool" where
  "mentions_fetchContent [] = False"
| "mentions_fetchContent (c # cs) = (fetchContent_at (c # cs) \<or> mentions_fetchContent cs)"

definition fetchContent_import :: string where
  "fetchContent_import = ''import {fetchContent} from 'astro/dist/internal/fetch-content.js';'' @ [CHR 0x0A]"

text \<open>\<^verbatim>\<open>module.content.slice(start || undefined, end || undefined)\<close>\<close>

definition slice_source :: "string \<Rightarrow> nat option \<Rightarrow> nat option \<Rightarrow> string" where
  "slice_source src a b =
     (let from = (case a of None \<Rightarrow> 0 | Some n \<Rightarrow> n);
          to = (case b of None \<Rightarrow> length src | Some n \<Rightarrow> if n = 0 then length src else n)
      in take (to - from) (drop from src))"

text \<open>
  The collaborators of the frontmatter pass: Babel's parser (the body of the
  program, or its error) and generator (of a program and of one node),
  \<^verbatim>\<open>camelCase\<close>, and the set of the names of Node's built-in modules.
\<close>

record ModuleEnv =
  babel_parse :: "string \<Rightarrow> js_error + statement list"
  babelGenerator :: "statement list \<Rightarrow> string"
  babelGenerator_node :: "statement \<Rightarrow> string"
  camelCase :: "string \<Rightarrow> string"
  nodeBuiltinsSet :: "string list"

text \<open>The local variables of the loop over the body of the program.\<close>

record Classified =
  body :: "statement list"
  c_componentImports :: "statement list"
  c_componentProps :: "declarator list"
  c_componentExports :: "statement list"
  c_getStaticPaths :: string
  c_declarations :: "string list"

text \<open>
  One turn of the loop \<^verbatim>\<open>while (--i >= 0)\<close> on the statement \<open>node\<close> at index \<open>i\<close>;
  \<open>body acc\<close> holds the statements after index \<open>i\<close> that were kept. The
  statement is put in front of them unless \<^verbatim>\<open>body.splice(i, 1)\<close> removes it.
\<close>

definition classify_statement :: "ModuleEnv \<Rightarrow> statement \<Rightarrow> Classified \<Rightarrow> js_error + Classified" where
  "classify_statement menv node acc =
     (case node of
        ExportNamedDeclaration None a b \<Rightarrow> Inr (acc\<lparr>body := node # body acc\<rparr>)
      | ExportNamedDeclaration (Some (VariableDeclaration ds)) a b \<Rightarrow>
          (case ds of
             [] \<Rightarrow> Inl (TypeError ''Cannot read properties of undefined (reading id)'')
           | declaration # later \<Rightarrow>
               if name_of (d_id declaration) = Some ''__layout'' \<or> name_of (d_id declaration) = Some ''__content''
               then Inr (acc\<lparr>c_componentExports := c_componentExports acc @ [node]\<rparr>)
               else Inr (acc\<lparr>c_componentProps := c_componentProps acc @ [declaration]\<rparr>))
      | ExportNamedDeclaration (Some (FunctionDeclaration fid kids)) a b \<Rightarrow>
          if fid \<noteq> Some ''getStaticPaths'' then Inr (acc\<lparr>body := node # body acc\<rparr>)
          else Inr (acc\<lparr>c_getStaticPaths := babelGenerator_node menv node\<rparr>)
      | ExportNamedDeclaration (Some other) a b \<Rightarrow> Inr acc
      | FunctionDeclaration fid kids \<Rightarrow>
          Inr (acc\<lparr>body := node # body acc,
                    c_declarations := (case fid of
                                         None \<Rightarrow> c_declarations acc
                                       | Some n \<Rightarrow> if n = [] then c_declarations acc
                                                   else set_add n (c_declarations acc))\<rparr>)
      | ImportDeclaration sps src a b \<Rightarrow>
          Inr (acc\<lparr>c_componentImports := c_componentImports acc @ [node]\<rparr>)
      | VariableDeclaration ds \<Rightarrow>
          Inr (acc\<lparr>body := node # body acc,
                    c_declarations :=
                      fold (\<lambda>d decls. case d_id d of Identifier n \<Rightarrow> set_add n decls | _ \<Rightarrow> decls)
                        ds (c_declarations acc)\<rparr>)
      | OtherStatement kind kids \<Rightarrow> Inr (acc\<lparr>body := node # body acc\<rparr>))"

text \<open>The loop runs from the last statement to the first.\<close>

fun classify_loop :: "ModuleEnv \<Rightarrow> statement list \<Rightarrow> Classified \<Rightarrow> js_error + Classified" where
  "classify_loop menv [] acc = Inr acc"
| "classify_loop menv (node # earlier) acc =
     (case classify_statement menv node acc of
        Inl e \<Rightarrow> Inl e
      | Inr acc' \<Rightarrow> classify_loop menv earlier acc')"

definition classify_body :: "ModuleEnv \<Rightarrow> statement list \<Rightarrow> string list \<Rightarrow> js_error + Classified" where
  "classify_body menv stmts decls =
     classify_loop menv (rev stmts)
       \<lparr>body = [], c_componentImports = [], c_componentProps = [], c_componentExports = [],
        c_getStaticPaths = [], c_declarations = decls\<rparr>"

text \<open>The inner loop over the specifiers of one import.\<close>

fun record_specifiers :: "string \<Rightarrow> string \<Rightarrow> ImportSpecifier list \<Rightarrow> CodegenState \<Rightarrow> CodegenState" where
  "record_specifiers importUrl source [] st = st"
| "record_specifiers importUrl source (specifier # rest) st =
     (let componentName = local_name specifier;
          st1 = st\<lparr>components := AList.update componentName
                     \<lparr>importSpecifier = specifier, url = importUrl\<rparr> (components st)\<rparr>;
          st2 = (if componentName \<in> fst ` set (componentImports st1) then st1
                 else st1\<lparr>componentImports := componentImports st1 @ [(componentName, [])]\<rparr>);
          st3 = st2\<lparr>componentImports :=
                     AList.update componentName
                       ((case map_of (componentImports st2) componentName of None \<Rightarrow> [] | Some l \<Rightarrow> l) @ [source])
                       (componentImports st2)\<rparr>
      in record_specifiers importUrl source rest st3)"

text \<open>The loop over the collected imports.\<close>

fun record_imports :: "Env \<Rightarrow> ModuleEnv \<Rightarrow> bool \<Rightarrow> string \<Rightarrow> statement list \<Rightarrow> CodegenState \<Rightarrow> js_error + CodegenState" where
  "record_imports env menv custom src [] st = Inr st"
| "record_imports env menv custom src (ImportDeclaration sps importUrl a b # rest) st =
     (if importUrl \<in> set (nodeBuiltinsSet menv) then
        Inl (Error (''Node builtins must be prefixed with 'node:'. Use node:'' @ importUrl @ '' instead.''))
      else
        (let st1 = record_specifiers importUrl (slice_source src a b) sps st;
             st2 = (if custom \<and> sps = [] then
                      (let moduleImportName = camelCase menv (importUrl @ ''Module'')
                       in (add_import (''import * as '' @ moduleImportName @ '' from '' @ [CHR 0x27] @ importUrl
                                       @ [CHR 0x27] @ '';'' @ [CHR 0x0A]) st1)
                            \<lparr>customElementCandidates :=
                               AList.update moduleImportName (getComponentUrl env importUrl)
                                 (customElementCandidates st1)\<rparr>)
                    else add_import (slice_source src a b) st1)
         in record_imports env menv custom src rest st2))"
| "record_imports env menv custom src (other # rest) st = record_imports env menv custom src rest st"

fun source_range :: "statement \<Rightarrow> nat option \<times> nat option" where
  "source_range (ExportNamedDeclaration d a b) = (a, b)"
| "source_range (ImportDeclaration sps src a b) = (a, b)"
| "source_range other = (None, None)"

definition record_exports :: "string \<Rightarrow> statement list \<Rightarrow> CodegenState \<Rightarrow> CodegenState" where
  "record_exports src exports st =
     st\<lparr>exportStatements :=
          fold (\<lambda>e. set_add (slice_source src (fst (source_range e)) (snd (source_range e))))
            exports (exportStatements st)\<rparr>"

definition props_warning :: "declarator list \<Rightarrow> string" where
  \<open>props_warning componentProps =
     [CHR 0x0A] @ ''Defining props with "export" has been removed! Please see https://github.com/snowpackjs/astro/blob/main/packages/astro/CHANGELOG.md#0150''
       @ [CHR 0x0A] @ ''Please update your code to use:'' @ [CHR 0x0A, CHR 0x0A] @ ''const { ''
       @ join '', '' (filter (\<lambda>v. v \<noteq> []) (map (\<lambda>prop. case name_of (d_id prop) of None \<Rightarrow> [] | Some n \<Rightarrow> n) componentProps))
       @ '' } = Astro.props;'' @ [CHR 0x0A]\<close>

text \<open>\<^verbatim>\<open>interface CompileResult\<close> and the module of the AST.\<close>

record CompileResult =
  script :: string
  getStaticPaths :: "string option"

record Script =
  content :: string

text \<open>
  The part of \<^verbatim>\<open>compileModule\<close> that converts \<^verbatim>\<open>Astro.fetchContent()\<close>: behind the
  test of the source text, the import is added and the program is traversed.
\<close>

definition convert_fetchContent :: "string \<Rightarrow> statement list \<Rightarrow> CodegenState \<Rightarrow> (statement list, CodegenState) outcome" where
  "convert_fetchContent src stmts st =
     (if mentions_fetchContent src then
        (let st1 = add_import fetchContent_import st in
         case rewrite_body (filename st1) stmts of
           Inl e \<Rightarrow> Thrown e st1
         | Inr stmts' \<Rightarrow> Returned stmts' st1)
      else Returned stmts st)"

definition compileModule ::
  "Env \<Rightarrow> ModuleEnv \<Rightarrow> bool \<Rightarrow> Script option \<Rightarrow> CodegenState \<Rightarrow> (CompileResult, CodegenState) outcome" where
  "compileModule env menv custom module0 st =
     (case module0 of
        None \<Rightarrow> Returned \<lparr>script = [], getStaticPaths = None\<rparr> st
      | Some m \<Rightarrow>
          (case babel_parse menv (content m) of
             Inl err \<Rightarrow> Thrown err st
           | Inr parsed \<Rightarrow>
               and_then (convert_fetchContent (content m) parsed st) (\<lambda>program st1.
                 case classify_body menv program (declarations st1) of
                   Inl e \<Rightarrow> Thrown e st1
                 | Inr c \<Rightarrow>
                     (let st2 = st1\<lparr>declarations := c_declarations c\<rparr> in
                      case record_imports env menv custom (content m) (c_componentImports c) st2 of
                        Inl e \<Rightarrow> Thrown e st2
                      | Inr st3 \<Rightarrow>
                          (let st4 = record_exports (content m) (c_componentExports c) st3;
                               st5 = (if length (c_componentProps c) > 0
                                      then log (LogWarn (shortname env) (props_warning (c_componentProps c))) st4
                                      else st4)
                           in and_then (transpileExpressionSafe env (babelGenerator menv (body c)) st5)
                                (\<lambda>transpiled st6.
                                   case transpiled of
                                     None \<Rightarrow> Thrown (Error ''Unable to compile script'') st6
                                   | Some transpiledScript \<Rightarrow>
                                       Returned \<lparr>script = transpiledScript,
                                                 getStaticPaths = (if c_getStaticPaths c = [] then None
                                                                   else Some (c_getStaticPaths c))\<rparr> st6))))))"

section \<open>The driver: \<^verbatim>\<open>compileCss\<close> and \<^verbatim>\<open>codegen\<close>\<close>

text \<open>\<^verbatim>\<open>compileCss\<close>: the walk that collects the text of the style nodes.\<close>

fun compileCss :: "TemplateNode \<Rightarrow> CodegenState \<Rightarrow> js_error + CodegenState"
  and compileCss_list :: "TemplateNode list \<Rightarrow> CodegenState \<Rightarrow> js_error + CodegenState" where
  "compileCss (TemplateNode ty nm as cs ex ch rw dt ct sy vl) st =
     (if ty = Style then
        (case sy of
           None \<Rightarrow> Inl (TypeError ''Cannot read properties of undefined (reading styles)'')
         | Some styles \<Rightarrow> Inr (st\<lparr>css := css st @ [styles]\<rparr>))
      else
        (case compileCss_list as st of
           Inl e \<Rightarrow> Inl e
         | Inr st1 \<Rightarrow>
             (case (case ex of None \<Rightarrow> Inr st1 | Some e \<Rightarrow> compileCss e st1) of
                Inl e \<Rightarrow> Inl e
              | Inr st2 \<Rightarrow> compileCss_list cs st2)))"
| "compileCss_list [] st = Inr st"
| "compileCss_list (n # ns) st =
     (case compileCss n st of Inl e \<Rightarrow> Inl e | Inr st1 \<Rightarrow> compileCss_list ns st1)"

text \<open>The AST handed to \<^verbatim>\<open>codegen\<close>, and the artifact it returns.\<close>

record Ast =
  ast_module :: "Script option"
  ast_css :: "TemplateNode list"
  ast_html :: TemplateNode
  has_custom_element_feature :: bool

record TransformResult =
  r_script :: string
  r_imports :: "string list"
  r_exports :: "string list"
  r_html :: string
  r_css :: "string option"
  r_getStaticPaths :: "string option"
  r_hasCustomElements :: bool
  r_customElementCandidates :: "(string \<times> string) list"

definition initial_state :: "string \<Rightarrow> string \<Rightarrow> CodegenState" where
  "initial_state fname fid =
     \<lparr>components = [], css = [], filename = fname, fileID = fid, insideMarkdown = None,
      declarations = [], exportStatements = [], importStatements = [], componentImports = [],
      customElementCandidates = [], logged = []\<rparr>"

text \<open>
  \<^verbatim>\<open>codegen\<close>, with the bound on nested compiles as its first argument. An error
  of \<^verbatim>\<open>compileModule\<close> or \<^verbatim>\<open>compileCss\<close> rejects the promise of \<^verbatim>\<open>codegen\<close>; a
  template walk that rejects leaves it pending.
\<close>

definition codegen ::
  "nat \<Rightarrow> Env \<Rightarrow> ModuleEnv \<Rightarrow> Ast \<Rightarrow> string \<Rightarrow> string \<Rightarrow> (TransformResult, CodegenState) outcome" where
  "codegen fuel env menv ast fname fid =
     and_then (compileModule env menv (has_custom_element_feature ast) (ast_module ast) (initial_state fname fid))
       (\<lambda>res st1.
          case compileCss_list (ast_css ast) st1 of
            Inl e \<Rightarrow> Thrown e st1
          | Inr st2 \<Rightarrow>
              and_then (compileHtml_fuel fuel env (ast_html ast) st2) (\<lambda>html st3.
                Returned
                  \<lparr>r_script = script res,
                   r_imports = importStatements st3,
                   r_exports = exportStatements st3,
                   r_html = html,
                   r_css = (if css st3 = [] then None else Some (join [CHR 0x0A, CHR 0x0A] (css st3))),
                   r_getStaticPaths = getStaticPaths res,
                   r_hasCustomElements = has_custom_element_feature ast,
                   r_customElementCandidates = customElementCandidates st3\<rparr> st3))"

section \<open>The specification of the frontmatter pass, for comparison\<close>

text \<open>
  The statements of the program that stay in the emitted script: every
  statement but an import, a named export of a declaration other than a
  function, and a named export of the function \<^verbatim>\<open>getStaticPaths\<close>.
\<close>

definition stays_in_script :: "statement \<Rightarrow> bool" where
  "stays_in_script s =
     (case s of
        ExportNamedDeclaration None a b \<Rightarrow> True
      | ExportNamedDeclaration (Some (FunctionDeclaration fid kids)) a b \<Rightarrow> fid \<noteq> Some ''getStaticPaths''
      | ExportNamedDeclaration (Some other) a b \<Rightarrow> False
      | ImportDeclaration sps src a b \<Rightarrow> False
      | _ \<Rightarrow> True)"

text \<open>A declarator that makes its export one of the two special exports.\<close>

definition is_special_export :: "declarator \<Rightarrow> bool" where
  "is_special_export d = (name_of (d_id d) = Some ''__layout'' \<or> name_of (d_id d) = Some ''__content'')"

text \<open>
  The rewrite the specification describes: the arguments of every call
  \<^verbatim>\<open>Astro.fetchContent(...)\<close> are wrapped in \<^verbatim>\<open>import.meta.globEager(...)\<close>. The
  predicate \<open>literal_calls\<close> says that every such call has a string literal as
  its first argument.
\<close>

fun wrap_expr :: "jexpr \<Rightarrow> jexpr" and wrap_exprs :: "jexpr list \<Rightarrow> jexpr list" where
  "wrap_expr (Identifier n) = Identifier n"
| "wrap_expr (StringLiteral s) = StringLiteral s"
| "wrap_expr (MetaProperty m p) = MetaProperty m p"
| "wrap_expr (MemberExpression obj prop computed) = MemberExpression (wrap_expr obj) (wrap_expr prop) computed"
| "wrap_expr (CallExpression callee args) =
     (if is_fetchContent callee
      then CallExpression (wrap_expr callee) [CallExpression globEager (wrap_exprs args)]
      else CallExpression (wrap_expr callee) (wrap_exprs args))"
| "wrap_expr (OtherNode kind kids) = OtherNode kind (wrap_exprs kids)"
| "wrap_exprs [] = []"
| "wrap_exprs (e # es) = wrap_expr e # wrap_exprs es"

fun literal_calls :: "jexpr \<Rightarrow> bool" and literal_calls_list :: "jexpr list \<Rightarrow> bool" where
  "literal_calls (Identifier n) = True"
| "literal_calls (StringLiteral s) = True"
| "literal_calls (MetaProperty m p) = True"
| "literal_calls (MemberExpression obj prop computed) = (literal_calls obj \<and> literal_calls prop)"
| "literal_calls (CallExpression callee args) =
     ((if is_fetchContent callee then (case args of [] \<Rightarrow> False | a # rest \<Rightarrow> is_StringLiteral a) else True)
      \<and> literal_calls callee \<and> literal_calls_list args)"
| "literal_calls (OtherNode kind kids) = literal_calls_list kids"
| "literal_calls_list [] = True"
| "literal_calls_list (e # es) = (literal_calls e \<and> literal_calls_list es)"

definition wrap_declarator :: "declarator \<Rightarrow> declarator" where
  "wrap_declarator d = VariableDeclarator (wrap_expr (d_id d)) (map_option wrap_expr (d_init d))"

definition literal_calls_declarator :: "declarator \<Rightarrow> bool" where
  "literal_calls_declarator d =
     (literal_calls (d_id d) \<and> (case d_init d of None \<Rightarrow> True | Some e \<Rightarrow> literal_calls e))"

fun wrap_statement :: "statement \<Rightarrow> statement" where
  "wrap_statement (ExportNamedDeclaration None a b) = ExportNamedDeclaration None a b"
| "wrap_statement (ExportNamedDeclaration (Some d) a b) = ExportNamedDeclaration (Some (wrap_statement d)) a b"
| "wrap_statement (FunctionDeclaration n kids) = FunctionDeclaration n (wrap_exprs kids)"
| "wrap_statement (ImportDeclaration sps src a b) = ImportDeclaration sps src a b"
| "wrap_statement (VariableDeclaration ds) = VariableDeclaration (map wrap_declarator ds)"
| "wrap_statement (OtherStatement kind kids) = OtherStatement kind (wrap_exprs kids)"

fun literal_calls_statement :: "statement \<Rightarrow> bool" where
  "literal_calls_statement (ExportNamedDeclaration None a b) = True"
| "literal_calls_statement (ExportNamedDeclaration (Some d) a b) = literal_calls_statement d"
| "literal_calls_statement (FunctionDeclaration n kids) = literal_calls_list kids"
| "literal_calls_statement (ImportDeclaration sps src a b) = True"
| "literal_calls_statement (VariableDeclaration ds) = list_all literal_calls_declarator ds"
| "literal_calls_statement (OtherStatement kind kids) = literal_calls_list kids"

section \<open>Plain documents\<close>

text \<open>
  The number of opening parentheses minus the number of closing ones.
\<close>

definition balance :: "string \<Rightarrow> int" where
  "balance s = int (count_list s (CHR ''('')) - int (count_list s (CHR '')''))"

text \<open>
  An attribute whose value is \<^verbatim>\<open>true\<close>, empty, or one text segment, with as many
  opening as closing parentheses in its name and in its text.
\<close>

definition simple_attribute :: "TemplateNode \<Rightarrow> bool" where
  "simple_attribute a =
     (n_type a = Attribute \<and> balance (attr_key a) = 0 \<and>
      (case n_value a of
         ValTrue \<Rightarrow> True
       | ValNodes [] \<Rightarrow> True
       | ValNodes [t] \<Rightarrow>
           n_type t = Text \<and>
           (case n_raw t of
              Some r \<Rightarrow> balance r = 0
            | None \<Rightarrow> (case n_data t of Some d \<Rightarrow> balance d = 0 | None \<Rightarrow> False))
       | _ \<Rightarrow> False))"

text \<open>
  A plain document: fragments, elements and titles whose tags are not
  component tags and whose attributes are simple, text, comments, code spans
  and fences, mustache tags, and expressions without child nodes. Every piece
  of text that is copied into the output (a tag name, a text, the data of a
  code span, the transpiled code of an expression) has as many opening as
  closing parentheses.
\<close>

fun plain :: "Env \<Rightarrow> TemplateNode \<Rightarrow> bool"
  and plain_list :: "Env \<Rightarrow> TemplateNode list \<Rightarrow> bool"
  and plain_option :: "Env \<Rightarrow> TemplateNode option \<Rightarrow> bool" where
  "plain env (TemplateNode ty nm as cs ex ch rw dt ct sy vl) =
     (list_all simple_attribute as \<and> plain_option env ex \<and> plain_list env cs \<and>
      (case ty of
         Text \<Rightarrow>
           (case rw of
              Some r \<Rightarrow> balance r = 0
            | None \<Rightarrow> (case dt of Some d \<Rightarrow> balance d = 0 | None \<Rightarrow> True))
       | Comment \<Rightarrow> True
       | CodeSpan \<Rightarrow> (case dt of Some d \<Rightarrow> balance d = 0 | None \<Rightarrow> True)
       | CodeFence \<Rightarrow> (case dt of Some d \<Rightarrow> balance d = 0 | None \<Rightarrow> True)
       | Expression \<Rightarrow>
           cs = [] \<and>
           (case transformSync env (''('' @ interleave ch [] @ '')'') of
              Inl msg \<Rightarrow> True
            | Inr code \<Rightarrow> balance (strip_semicolon (trim code)) = 0)
       | MustacheTag \<Rightarrow> True
       | Fragment \<Rightarrow> True
       | Element \<Rightarrow>
           (case nm of None \<Rightarrow> True | Some name \<Rightarrow> \<not> isComponentTag env name \<and> balance name = 0)
       | Title \<Rightarrow>
           (case nm of None \<Rightarrow> True | Some name \<Rightarrow> \<not> isComponentTag env name \<and> balance name = 0)
       | _ \<Rightarrow> False))"
| "plain_list env [] = True"
| "plain_list env (n # ns) = (plain env n \<and> plain_list env ns)"
| "plain_option env None = True"
| "plain_option env (Some n) = plain env n"




section \<open>Sample inputs\<close>

text \<open>
  Concrete collaborators and documents, used where a statement is evaluated
  at an input. The tag tests are those of \<^verbatim>\<open>../utils.js\<close> (a component tag starts
  with a capital letter, or with lower-case letters and a dot, or is a custom
  element; a custom element has a hyphen). The sample transpiler rejects the
  expression \<^verbatim>\<open>(1 +)\<close> with the message and the location esbuild gives, returns
  an identifier in parentheses without them, and any other input as it is,
  each followed by a semicolon and a line feed. The sample file system has
  the one file of the samples, the project root is \<^verbatim>\<open>/project/\<close>, and the sample
  Markdown renderer wraps the text in a paragraph.
\<close>

definition is_upper :: "char \<Rightarrow> bool" where
  "is_upper c = (65 \<le> (of_char c :: nat) \<and> (of_char c :: nat) \<le> 90)"

definition is_lower :: "char \<Rightarrow> bool" where
  "is_lower c = (97 \<le> (of_char c :: nat) \<and> (of_char c :: nat) \<le> 122)"

definition is_identifier :: "string \<Rightarrow> bool" where
  "is_identifier s =
     (s \<noteq> [] \<and> list_all (\<lambda>c. is_upper c \<or> is_lower c \<or> c = CHR ''_'' \<or> c = CHR ''$'') s)"

definition sample_transformSync :: "string \<Rightarrow> esbuild_message list + string" where
  \<open>sample_transformSync raw =
     (if raw = ''(1 +)'' then Inl [Message ''Unexpected ")"'' (Some (Location 1 4 1))]
      else if 2 \<le> length raw \<and> hd raw = CHR ''('' \<and> last raw = CHR '')'' \<and> is_identifier (butlast (tl raw))
      then Inr (butlast (tl raw) @ '';'' @ [CHR 0x0A])
      else Inr (raw @ '';'' @ [CHR 0x0A]))\<close>

definition node :: "ntype \<Rightarrow> string option \<Rightarrow> TemplateNode list \<Rightarrow> TemplateNode list \<Rightarrow> TemplateNode" where
  "node t n as cs = TemplateNode t n as cs None [] None None None None ValUndefined"

definition text_node :: "string \<Rightarrow> TemplateNode" where
  "text_node s = TemplateNode Text None [] [] None [] (Some s) (Some s) None None ValUndefined"


definition attribute_node :: "string \<Rightarrow> AttrValue \<Rightarrow> TemplateNode" where
  "attribute_node n v = TemplateNode Attribute (Some n) [] [] None [] None None None None v"

definition sample_env :: Env where
  \<open>sample_env =
     \<lparr>transformSync = sample_transformSync,
      readFileSync = (\<lambda>f. if f = ''/project/src/pages/index.astro'' then Inr ''<h1>Hi</h1>''
                           else Inl (Error (''ENOENT: no such file or directory, open '' @ f))),
      isComponentTag = (\<lambda>tag. (tag \<noteq> [] \<and> is_upper (hd tag))
                              \<or> (takeWhile is_lower tag \<noteq> [] \<and> startsWith (dropWhile is_lower tag) ''.'')
                              \<or> CHR ''-'' \<in> set tag),
      isCustomElementTag = (\<lambda>tag. CHR ''-'' \<in> set tag),
      renderMarkdown = (\<lambda>md sc. Inr (node Fragment None [] [node Element (Some ''p'') [] [text_node md]])),
      getComponentUrl = (\<lambda>u. ''/_astro/'' @ u @ ''.js''),
      PRISM_IMPORT = ''import Prism from 'astro/components/Prism.astro';'',
      isPage = True,
      warnIfRelativeStringLiteral = (\<lambda>n a t. []),
      shortname = ''src/pages/index.astro'',
      projectRoot_pathname = ''/project/''\<rparr>\<close>

definition sample_state :: CodegenState where
  "sample_state = initial_state ''/project/src/pages/index.astro'' ''index''"

text \<open>
  The document \<^verbatim>\<open><h1>Hi</h1>\<close>: the \<^verbatim>\<open>html\<close> root of the parser is a fragment
  whose only child is the element.
\<close>

definition h1_element :: TemplateNode where
  "h1_element = node Element (Some ''h1'') [] [text_node ''Hi'']"

definition h1_document :: TemplateNode where
  "h1_document = node Fragment None [] [h1_element]"

text \<open>
  A sample of Babel: the parser knows the frontmatter sources below, the
  generator prints the nodes of the modelled AST.
\<close>

fun gen_expr :: "jexpr \<Rightarrow> string" and gen_exprs :: "jexpr list \<Rightarrow> string" where
  "gen_expr (Identifier n) = n"
| "gen_expr (StringLiteral s) = [CHR 0x27] @ s @ [CHR 0x27]"
| "gen_expr (MetaProperty m p) = m @ ''.'' @ p"
| "gen_expr (MemberExpression obj prop computed) =
     (if computed then gen_expr obj @ ''['' @ gen_expr prop @ '']''
      else gen_expr obj @ ''.'' @ gen_expr prop)"
| "gen_expr (CallExpression callee args) = gen_expr callee @ ''('' @ gen_exprs args @ '')''"
| "gen_expr (OtherNode kind kids) = kind @ ''('' @ gen_exprs kids @ '')''"
| "gen_exprs [] = []"
| "gen_exprs (e # es) = gen_expr e @ (if es = [] then [] else '', '' @ gen_exprs es)"

definition gen_declarator :: "declarator \<Rightarrow> string" where
  "gen_declarator d =
     gen_expr (d_id d) @ (case d_init d of None \<Rightarrow> [] | Some e \<Rightarrow> '' = '' @ gen_expr e)"

fun gen_statement :: "statement \<Rightarrow> string" where
  "gen_statement (ExportNamedDeclaration None a b) = ''export {};''"
| "gen_statement (ExportNamedDeclaration (Some d) a b) = ''export '' @ gen_statement d"
| "gen_statement (FunctionDeclaration n kids) =
     ''function '' @ (case n of None \<Rightarrow> [] | Some f \<Rightarrow> f) @ ''() {'' @ gen_exprs kids @ ''}''"
| "gen_statement (ImportDeclaration sps src a b) = ''import '' @ [CHR 0x27] @ src @ [CHR 0x27] @ '';''"
| "gen_statement (VariableDeclaration ds) = ''const '' @ join '', '' (map gen_declarator ds) @ '';''"
| "gen_statement (OtherStatement kind kids) = kind @ ''('' @ gen_exprs kids @ '');''"

definition fetch_call :: "jexpr \<Rightarrow> jexpr" where
  "fetch_call arg =
     CallExpression (MemberExpression (Identifier ''Astro'') (Identifier ''fetchContent'') False) [arg]"

definition const_x :: "jexpr \<Rightarrow> statement" where
  "const_x init = VariableDeclaration [VariableDeclarator (Identifier ''x'') (Some init)]"

definition sample_sources :: "(string \<times> statement list) list" where
  "sample_sources =
     [(''const x = Astro.fetchContent('./*.md');'', [const_x (fetch_call (StringLiteral ''./*.md''))]),
      (''const x = Astro.fetchContent(p);'', [const_x (fetch_call (Identifier ''p''))]),
      (''const x = Astro /**/ .fetchContent('./*.md');'', [const_x (fetch_call (StringLiteral ''./*.md''))]),
      (''const x = Astro /**/ .fetchContent(p);'', [const_x (fetch_call (Identifier ''p''))]),
      (''export let __layout = a, title = b;'',
         [ExportNamedDeclaration
            (Some (VariableDeclaration [VariableDeclarator (Identifier ''__layout'') (Some (Identifier ''a'')),
                                        VariableDeclarator (Identifier ''title'') (Some (Identifier ''b''))]))
            (Some 0) (Some 35)]),
      (''export let title = b, __layout = a;'',
         [ExportNamedDeclaration
            (Some (VariableDeclaration [VariableDeclarator (Identifier ''title'') (Some (Identifier ''b'')),
                                        VariableDeclarator (Identifier ''__layout'') (Some (Identifier ''a''))]))
            (Some 0) (Some 35)]),
      (''import X from './X.jsx';'',
         [ImportDeclaration [ImportDefaultSpecifier ''X''] ''./X.jsx'' (Some 0) (Some 24)]),
      (''import * as UI from './ui.jsx';'',
         [ImportDeclaration [ImportNamespaceSpecifier ''UI''] ''./ui.jsx'' (Some 0) (Some 31)]),
      (''import { Markdown } from 'astro/components';'',
         [ImportDeclaration [ImportSpecifier ''Markdown'' ''Markdown''] ''astro/components'' (Some 0) (Some 44)])]"

definition sample_menv :: ModuleEnv where
  "sample_menv =
     \<lparr>babel_parse = (\<lambda>src. case map_of sample_sources src of
                             None \<Rightarrow> Inl (Error ''SyntaxError'') | Some stmts \<Rightarrow> Inr stmts),
      babelGenerator = (\<lambda>stmts. join [CHR 0x0A] (map gen_statement stmts)),
      babelGenerator_node = gen_statement,
      camelCase = (\<lambda>s. s),
      nodeBuiltinsSet = [''fs'', ''path'', ''url'']\<rparr>"

definition sample_ast :: "string option \<Rightarrow> TemplateNode \<Rightarrow> Ast" where
  "sample_ast src html =
     \<lparr>ast_module = map_option (\<lambda>s. \<lparr>content = s\<rparr>) src, ast_css = [], ast_html = html,
      has_custom_element_feature = False\<rparr>"

text \<open>
  The claimed output for \<^verbatim>\<open><h1>Hi</h1>\<close>, a paragraph whose text is an opening
  parenthesis, an undefined component, and a failing expression followed by
  text.
\<close>

definition claimed_h1 :: string where
  \<open>claimed_h1 = ''h("h1",{[__astroContext]:props[__astroContext]},"Hi")''\<close>


definition undefined_component_document :: TemplateNode where
  "undefined_component_document = node Fragment None [] [node InlineComponent (Some ''Foo'') [] []]"

text \<open>The document \<^verbatim>\<open><Markdown/>\<close>, in a file that does not import \<^verbatim>\<open>Markdown\<close>.\<close>

definition unimported_markdown_document :: TemplateNode where
  "unimported_markdown_document = node Fragment None [] [node InlineComponent (Some ''Markdown'') [] []]"




text \<open>
  A component with the directive \<^verbatim>\<open>client:only\<close>, under its own name and as a
  member of a namespace import; a Markdown region, and one opened with the
  legacy colon syntax.
\<close>

definition client_only_document :: TemplateNode where
  "client_only_document =
     node Fragment None [] [node InlineComponent (Some ''X'') [attribute_node ''client:only'' ValTrue] []]"

definition namespace_only_document :: TemplateNode where
  "namespace_only_document =
     node Fragment None [] [node InlineComponent (Some ''UI.Comp'') [attribute_node ''client:only'' ValTrue] []]"

definition markdown_document :: TemplateNode where
  "markdown_document =
     node Fragment None [] [node InlineComponent (Some ''Markdown'') [] [text_node ''text'']]"

definition legacy_markdown_document :: TemplateNode where
  "legacy_markdown_document =
     node Fragment None [] [node InlineComponent (Some ''Markdown:load'') [] [text_node ''text'']]"


section \<open>The hydration classifier\<close>

lemma findHydrationAttributes_loop_append:
  "findHydrationAttributes_loop (xs @ ys) acc
     = findHydrationAttributes_loop ys (findHydrationAttributes_loop xs acc)"
  by (induction xs arbitrary: acc) auto

lemma findHydrationAttributes_loop_rev:
  "findHydrationAttributes_loop attrs acc =
     (case rev (filter is_directive attrs) of
        [] \<Rightarrow> acc
      | kv # _ \<Rightarrow> \<lparr>hydr_method = Some (drop 7 (fst kv)),
                   hydr_value = (if snd kv = ''true'' then None else Some (snd kv))\<rparr>)"
proof (induction attrs rule: rev_induct)
  case Nil
  show ?case by simp
next
  case (snoc kv attrs)
  obtain key val where kv: "kv = (key, val)" by (cases kv)
  show ?case
    by (simp add: findHydrationAttributes_loop_append snoc.IH kv is_directive_def)
qed

text \<open>
  C4 (as the code has it). The classifier returns the directive key that comes
  last in the attribute record: the method is that key without its first seven
  characters, the text \<^verbatim>\<open>client:\<close>, and the value is undefined exactly when the raw
  value of that key is the literal \<^verbatim>\<open>true\<close>. Without a directive key both fields are
  undefined.
\<close>

theorem findHydrationAttributes_last:
  "findHydrationAttributes attrs =
     (case rev (filter is_directive attrs) of
        [] \<Rightarrow> \<lparr>hydr_method = None, hydr_value = None\<rparr>
      | kv # _ \<Rightarrow> \<lparr>hydr_method = Some (drop 7 (fst kv)),
                   hydr_value = (if snd kv = ''true'' then None else Some (snd kv))\<rparr>)
   \<and> list_all (\<lambda>key. ''client:'' @ drop 7 key = key) hydrationDirectives"
  by (simp add: findHydrationAttributes_def findHydrationAttributes_loop_rev
      hydrationDirectives_def)

theorem findHydrationAttributes_last_witness:
  "findHydrationAttributes [(''client:load'', ''true''), (''class'', ''x''), (''client:media'', ''(w)'')]
     = \<lparr>hydr_method = Some ''media'', hydr_value = Some ''(w)''\<rparr>"
  using findHydrationAttributes_last
    [of "[(''client:load'', ''true''), (''class'', ''x''), (''client:media'', ''(w)'')]"]
  by (simp add: is_directive_def hydrationDirectives_def)

text \<open>
  C4 (as stated) fails: with two directives the method is taken from the second
  key, not from the first one.
\<close>

theorem findHydrationAttributes_not_first:
  "hydr_method (findHydrationAttributes [(''client:load'', ''true''), (''client:idle'', ''true'')])
     = Some ''idle''
   \<and> first_directive_method [(''client:load'', ''true''), (''client:idle'', ''true'')]
     = Some ''load''
   \<and> hydr_method (findHydrationAttributes [(''client:load'', ''true''), (''client:idle'', ''true'')])
     \<noteq> first_directive_method [(''client:load'', ''true''), (''client:idle'', ''true'')]"
  by (simp add: findHydrationAttributes_def first_directive_method_def is_directive_def
      hydrationDirectives_def)

section \<open>The generated props object\<close>



section \<open>Unfolding the walk\<close>

lemmas walk_defs = compileHtml_def initial_walk_def enter_def leave_def enter_element_def
  element_try_def enter_html_element_def getAttributes_def and_then_def in_walk_def
  push_if_markdown_def open_slot_content_def append_curr_def close_parens_def leave_element_def
  enter_text_def getTextFromAttribute_def has_slot_attribute_def truthy_def
  findHydrationAttributes_def generateAttributes_def cleanup_def strip_leading_comma_def
  JSON_stringify_def json_escape_def

lemma visit_unfold:
  "visit env rec parent nd w =
     (case enter env rec nd parent w of
        Returned skipped w1 \<Rightarrow>
          if skipped then Returned () w1
          else and_then (visit_list env rec nd (n_attributes nd) w1) (\<lambda>u2 w2.
                 and_then (visit_option env rec nd (n_expression nd) w2) (\<lambda>u3 w3.
                   and_then (visit_list env rec nd (n_children nd) w3) (\<lambda>u4 w4. leave env rec nd w4)))
      | Thrown e w1 \<Rightarrow> Thrown e w1
      | Pending e w1 \<Rightarrow> Pending e w1
      | OutOfFuel \<Rightarrow> OutOfFuel)"
  by (cases nd) (simp add: and_then_def Let_def split: outcome.splits)

section \<open>The props objects that the walk writes\<close>







section \<open>The frontmatter pass and the style pass leave the Markdown marker alone\<close>

lemma record_specifiers_insideMarkdown [simp]:
  "insideMarkdown (record_specifiers u s sps st) = insideMarkdown st"
  by (induction sps arbitrary: st) (simp_all add: Let_def)

lemma record_imports_insideMarkdown:
  "record_imports env menv c src imps st = Inr st' \<Longrightarrow> insideMarkdown st' = insideMarkdown st"
  by (induction env menv c src imps st rule: record_imports.induct)
     (auto simp: Let_def add_import_def split: if_splits)

lemma convert_fetchContent_insideMarkdown:
  "convert_fetchContent src stmts st = Returned p st1 \<Longrightarrow> insideMarkdown st1 = insideMarkdown st"
  by (auto simp: convert_fetchContent_def add_import_def Let_def split: if_splits sum.splits)

lemma transpileExpressionSafe_insideMarkdown:
  "transpileExpressionSafe env raw st = Returned r st1 \<Longrightarrow> insideMarkdown st1 = insideMarkdown st"
  by (auto simp: transpileExpressionSafe_def log_def split: sum.splits list.splits option.splits)

lemma transpileExpressionSafe_Some:
  "transpileExpressionSafe env raw st = Returned (Some code) st1
     \<longleftrightarrow> transformSync env raw = Inr code \<and> st1 = st"
  by (auto simp: transpileExpressionSafe_def split: sum.splits list.splits option.splits)

lemma compileModule_insideMarkdown:
  assumes "compileModule env menv c m st = Returned r st'"
  shows "insideMarkdown st' = insideMarkdown st"
proof (cases m)
  case None
  with assms show ?thesis by (simp add: compileModule_def)
next
  case (Some scr)
  from assms Some obtain parsed where p: "babel_parse menv (content scr) = Inr parsed"
    by (auto simp: compileModule_def split: sum.splits)
  from assms Some p obtain program st1 where
    cf: "convert_fetchContent (content scr) parsed st = Returned program st1"
    by (auto simp: compileModule_def and_then_def split: outcome.splits)
  from assms Some p cf obtain cl where cl: "classify_body menv program (declarations st1) = Inr cl"
    by (auto simp: compileModule_def and_then_def split: sum.splits)
  from assms Some p cf cl obtain st3 where
    ri: "record_imports env menv c (content scr) (c_componentImports cl)
           (st1\<lparr>declarations := c_declarations cl\<rparr>) = Inr st3"
    by (auto simp: compileModule_def and_then_def Let_def split: sum.splits)
  define st5 where "st5 =
    (if length (c_componentProps cl) > 0
     then log (LogWarn (shortname env) (props_warning (c_componentProps cl)))
            (record_exports (content scr) (c_componentExports cl) st3)
     else record_exports (content scr) (c_componentExports cl) st3)"
  have i5: "insideMarkdown st5 = insideMarkdown st3"
    by (simp add: st5_def log_def record_exports_def)
  from assms Some p cf cl ri obtain res where
    tr: "transpileExpressionSafe env (babelGenerator menv (body cl)) st5 = Returned res st'"
    by (auto simp: compileModule_def and_then_def Let_def st5_def split: outcome.splits option.splits)
  from transpileExpressionSafe_insideMarkdown [OF tr] i5 record_imports_insideMarkdown [OF ri]
    convert_fetchContent_insideMarkdown [OF cf]
  show ?thesis by simp
qed

lemma compileCss_insideMarkdown:
  "compileCss n st = Inr st' \<Longrightarrow> insideMarkdown st' = insideMarkdown st"
  "compileCss_list ns st = Inr st' \<Longrightarrow> insideMarkdown st' = insideMarkdown st"
proof (induction n st and ns st arbitrary: st' and st' rule: compileCss_compileCss_list.induct)
  case (1 ty nm as cs ex ch rw dt ct sy vl st)
  show ?case
  proof (cases "ty = Style")
    case True
    with "1.prems" show ?thesis by (auto split: option.splits)
  next
    case False
    from False "1.prems" obtain st1 where a: "compileCss_list as st = Inr st1"
      by (auto split: sum.splits)
    from False "1.prems" a obtain st2 where
      b: "(case ex of None \<Rightarrow> Inr st1 | Some e \<Rightarrow> compileCss e st1) = Inr st2"
      by (auto split: sum.splits)
    from False "1.prems" a b have c: "compileCss_list cs st2 = Inr st'" by simp
    have i1: "insideMarkdown st1 = insideMarkdown st" using "1.IH"(1) [OF False a] .
    have i2: "insideMarkdown st2 = insideMarkdown st1"
    proof (cases ex)
      case None
      with b show ?thesis by simp
    next
      case (Some e)
      with b have "compileCss e st1 = Inr st2" by simp
      from "1.IH"(2) [OF False a Some this] show ?thesis .
    qed
    have i3: "insideMarkdown st' = insideMarkdown st2"
      using "1.IH"(3) [OF False a b c] .
    from i1 i2 i3 show ?thesis by simp
  qed
next
  case (2 st)
  then show ?case by simp
next
  case (3 n ns st)
  from "3.prems" obtain st1 where a: "compileCss n st = Inr st1" and b: "compileCss_list ns st1 = Inr st'"
    by (auto split: sum.splits)
  from "3.IH"(1) [OF a] "3.IH"(2) [OF a b] show ?case by simp
qed

section \<open>A single static element\<close>

lemma h1_html:
  assumes "\<not> isComponentTag env ''h1''" "insideMarkdown st = None"
  shows \<open>compileHtml_fuel (Suc n) env h1_document st =
     Returned ''h(Fragment, null,h("h1", {[__astroContext]:props[__astroContext]},"Hi"))'' st\<close>
  using assms
  by (simp add: h1_document_def h1_element_def node_def text_node_def walk_defs trim_def
      is_space_def Let_def)

text \<open>
  C3 (as the code has it). For the document \<^verbatim>\<open><h1>Hi</h1>\<close> without a frontmatter and
  without styles the artifact is empty except for its \<^verbatim>\<open>html\<close> field, and that is
  \<^verbatim>\<open>h(Fragment, null,h("h1", {[__astroContext]:props[__astroContext]},"Hi"))\<close>:
  the root fragment is written as a call of its own and the template of the
  element call has a space after the comma that follows the tag name. The
  \<^verbatim>\<open>html\<close> field is the same whatever the frontmatter and the styles are, whenever
  \<^verbatim>\<open>codegen\<close> returns. (The tag \<^verbatim>\<open>h1\<close> is not a component tag.)
\<close>

theorem codegen_h1:
  assumes "\<not> isComponentTag env ''h1''"
  shows \<open>codegen (Suc n) env menv
           \<lparr>ast_module = None, ast_css = [], ast_html = h1_document, has_custom_element_feature = c\<rparr> f i
         = Returned
             \<lparr>r_script = [], r_imports = [], r_exports = [],
              r_html = ''h(Fragment, null,h("h1", {[__astroContext]:props[__astroContext]},"Hi"))'',
              r_css = None, r_getStaticPaths = None, r_hasCustomElements = c,
              r_customElementCandidates = []\<rparr> (initial_state f i)
     \<and> (\<forall>ast r st. ast_html ast = h1_document \<longrightarrow> codegen (Suc n) env menv ast f i = Returned r st
           \<longrightarrow> r_html r = ''h(Fragment, null,h("h1", {[__astroContext]:props[__astroContext]},"Hi"))'')\<close>
proof (intro conjI allI impI)
  have im: "insideMarkdown (initial_state f i) = None" by (simp add: initial_state_def)
  have "compileModule env menv c None (initial_state f i)
          = Returned \<lparr>script = [], getStaticPaths = None\<rparr> (initial_state f i)"
    by (simp add: compileModule_def)
  then show \<open>codegen (Suc n) env menv
           \<lparr>ast_module = None, ast_css = [], ast_html = h1_document, has_custom_element_feature = c\<rparr> f i
         = Returned
             \<lparr>r_script = [], r_imports = [], r_exports = [],
              r_html = ''h(Fragment, null,h("h1", {[__astroContext]:props[__astroContext]},"Hi"))'',
              r_css = None, r_getStaticPaths = None, r_hasCustomElements = c,
              r_customElementCandidates = []\<rparr> (initial_state f i)\<close>
    unfolding codegen_def
    by (simp add: and_then_def h1_html [OF assms im] del: compileHtml_fuel.simps)
       (simp add: initial_state_def)
next
  fix ast r st
  assume a: "ast_html ast = h1_document" and r: "codegen (Suc n) env menv ast f i = Returned r st"
  from r obtain res st1 where
    m: "compileModule env menv (has_custom_element_feature ast) (ast_module ast) (initial_state f i)
          = Returned res st1"
    unfolding codegen_def
    by (auto simp: and_then_def split: outcome.splits simp del: compileHtml_fuel.simps)
  from r m obtain st2 where c: "compileCss_list (ast_css ast) st1 = Inr st2"
    unfolding codegen_def
    by (auto simp: and_then_def split: sum.splits simp del: compileHtml_fuel.simps)
  have "insideMarkdown st2 = None"
    using compileModule_insideMarkdown [OF m] compileCss_insideMarkdown(2) [OF c]
    by (simp add: initial_state_def)
  from h1_html [OF assms this] r m c a
  show \<open>r_html r = ''h(Fragment, null,h("h1", {[__astroContext]:props[__astroContext]},"Hi"))''\<close>
    unfolding codegen_def
    by (auto simp: and_then_def simp del: compileHtml_fuel.simps)
qed

theorem codegen_h1_witness:
  \<open>\<not> isComponentTag sample_env ''h1''
   \<and> codegen 1 sample_env sample_menv
       \<lparr>ast_module = None, ast_css = [], ast_html = h1_document, has_custom_element_feature = False\<rparr>
       ''/project/src/pages/index.astro'' ''index''
     = Returned
         \<lparr>r_script = [], r_imports = [], r_exports = [],
          r_html = ''h(Fragment, null,h("h1", {[__astroContext]:props[__astroContext]},"Hi"))'',
          r_css = None, r_getStaticPaths = None, r_hasCustomElements = False,
          r_customElementCandidates = []\<rparr> (initial_state ''/project/src/pages/index.astro'' ''index'')\<close>
proof -
  have h: "\<not> isComponentTag sample_env ''h1''" by (simp add: sample_env_def is_upper_def is_lower_def startsWith_def)
  from codegen_h1 [OF h, of 0 sample_menv False] h show ?thesis by simp
qed

text \<open>
  C3 (as stated) fails: the \<^verbatim>\<open>html\<close> field for \<^verbatim>\<open><h1>Hi</h1>\<close> is not the claimed
  string, and neither is the result of compiling the element on its own,
  without the root fragment.
\<close>

theorem codegen_h1_not_claimed:
  \<open>codegen 1 sample_env sample_menv (sample_ast None h1_document) ''/project/src/pages/index.astro'' ''index''
     = Returned
         \<lparr>r_script = [], r_imports = [], r_exports = [],
          r_html = ''h(Fragment, null,h("h1", {[__astroContext]:props[__astroContext]},"Hi"))'',
          r_css = None, r_getStaticPaths = None, r_hasCustomElements = False,
          r_customElementCandidates = []\<rparr> sample_state
   \<and> ''h(Fragment, null,h("h1", {[__astroContext]:props[__astroContext]},"Hi"))'' \<noteq> claimed_h1
   \<and> compileHtml_fuel 1 sample_env h1_element sample_state
     = Returned ''h("h1", {[__astroContext]:props[__astroContext]},"Hi")'' sample_state
   \<and> ''h("h1", {[__astroContext]:props[__astroContext]},"Hi")'' \<noteq> claimed_h1\<close>
  by code_simp

section \<open>A component that cannot be resolved\<close>

lemma getAttributes_Nil: "getAttributes env rec T [] st = Returned [] st"
  by (simp add: getAttributes_def)

text \<open>
  C2 (as the code has it). Let \<open>T\<close> be the name of an element, title, head or
  inline component node that is a component tag other than the built-in
  \<^verbatim>\<open>Prism\<close>. When the part of \<open>T\<close> before a colon is not in the components map
  (nor its namespace, for a dotted name), is not a custom element tag, is not
  declared in the frontmatter and is not \<^verbatim>\<open>Fragment\<close>, the error
  \<^verbatim>\<open>Unable to render "T" because it is undefined\<close> is raised inside the \<^verbatim>\<open>try\<close>
  block and caught: it is logged, \<^verbatim>\<open>paren\<close> is lowered by one, nothing but the
  separating comma is written, and \<^verbatim>\<open>enter\<close> returns without skipping the node.
  The error by itself does not end the walk: the walk goes on with the
  attributes, the expression and the children of the node and then with its
  \<^verbatim>\<open>leave\<close> hook. For a node without attributes and children, outside Markdown,
  the visit returns with the closing parenthesis of \<^verbatim>\<open>leave\<close>, except for an inline
  component that is named \<^verbatim>\<open>Markdown\<close>: there \<^verbatim>\<open>leave\<close> lowers \<^verbatim>\<open>count\<close> on the
  marker \<^verbatim>\<open>false\<close>, outside any \<^verbatim>\<open>try\<close>, and that \<^verbatim>\<open>TypeError\<close> rejects the walk.
\<close>

theorem undefined_component_is_logged:
  assumes ty: "n_type nd = Element \<or> n_type nd = Title \<or> n_type nd = InlineComponent \<or> n_type nd = Head"
    and nm: "n_name nd = Some T" "T \<noteq> []" "T \<noteq> ''Prism''"
    and ct: "isComponentTag env T"
    and ga: "getAttributes env rec T (n_attributes nd) (state w) = Returned attributes st1"
    and un: "lookup_component (component_name T) st1 = None"
      "\<not> isCustomElementTag env (component_name T)"
      "component_name T \<notin> set (declarations st1)"
      "component_name T \<noteq> ''Fragment''"
  shows \<open>let w1 = w\<lparr>buffers_out := buffers_out w @ (if buffers_out w = [] then [] else '',''),
                    paren := paren w - 1,
                    state := log (LogError (rel env (filename st1))
                               (''Error: Unable to render "'' @ component_name T @ ''" because it is undefined''
                                  @ [CHR 0x0A] @ ''  '' @ filename st1)) st1\<rparr>
     in enter env rec nd parent w = Returned False w1
      \<and> visit env rec parent nd w =
          and_then (visit_list env rec nd (n_attributes nd) w1) (\<lambda>u2 w2.
            and_then (visit_option env rec nd (n_expression nd) w2) (\<lambda>u3 w3.
              and_then (visit_list env rec nd (n_children nd) w3) (\<lambda>u4 w4. leave env rec nd w4)))
      \<and> (n_attributes nd = [] \<and> n_expression nd = None \<and> n_children nd = []
            \<and> curr w = BufOut \<and> insideMarkdown (state w) = None
          \<longrightarrow> visit env rec parent nd w =
               (if n_type nd = InlineComponent \<and> T = ''Markdown''
                then Thrown (TypeError ''Cannot create property count on boolean false'') w1
                else Returned () (close_parens nd w1)))\<close>
proof -
  define w1 where \<open>w1 = w\<lparr>buffers_out := buffers_out w @ (if buffers_out w = [] then [] else '',''),
                    paren := paren w - 1,
                    state := log (LogError (rel env (filename st1))
                               (''Error: Unable to render "'' @ component_name T @ ''" because it is undefined''
                                  @ [CHR 0x0A] @ ''  '' @ filename st1)) st1\<rparr>\<close>
  have pc: "prism_case env nd (state w) = state w"
    using nm by (simp add: prism_case_def)
  have et: \<open>element_try env rec nd T w =
     Thrown (Error (''Unable to render "'' @ component_name T @ ''" because it is undefined''
                       @ [CHR 0x0A] @ ''  '' @ filename st1))
       (w\<lparr>state := st1, buffers_out := buffers_out w @ (if buffers_out w = [] then [] else '','')\<rparr>)\<close>
    using ty ct un ga
    by (auto simp: element_try_def and_then_def in_walk_def Let_def isFrontmatterDefinedComponent_def
        isFragmentComponent_def)
  have ee: "enter_element env rec nd w = Returned False w1"
    using nm by (simp add: enter_element_def truthy_def et error_toString_def w1_def)
  from ty have en: "enter env rec nd parent w = Returned False w1"
    by (auto simp: enter_def pc ee)
  have vi: "visit env rec parent nd w =
          and_then (visit_list env rec nd (n_attributes nd) w1) (\<lambda>u2 w2.
            and_then (visit_option env rec nd (n_expression nd) w2) (\<lambda>u3 w3.
              and_then (visit_list env rec nd (n_children nd) w3) (\<lambda>u4 w4. leave env rec nd w4)))"
    by (simp add: visit_unfold en)
  have leaf: "visit env rec parent nd w =
               (if n_type nd = InlineComponent \<and> T = ''Markdown''
                then Thrown (TypeError ''Cannot create property count on boolean false'') w1
                else Returned () (close_parens nd w1))"
    if l: "n_attributes nd = []" "n_expression nd = None" "n_children nd = []"
      "curr w = BufOut" "insideMarkdown (state w) = None"
  proof -
    from ga l(1) have s1: "st1 = state w" by (simp add: getAttributes_Nil)
    have c1: "curr w1 = BufOut" and i1: "insideMarkdown (state w1) = None"
      using l(4,5) s1 by (simp_all add: w1_def log_def)
    from l(1-3) have v: "visit env rec parent nd w = leave env rec nd w1"
      by (simp add: vi and_then_def)
    show ?thesis
    proof (cases "n_type nd = InlineComponent")
      case True
      with nm(1) c1 i1 show ?thesis
        by (simp add: v leave_def leave_inline_component_def Let_def)
    next
      case False
      with ty c1 show ?thesis
        by (auto simp: v leave_def leave_element_def push_if_markdown_def and_then_def)
    qed
  qed
  from en vi leaf show ?thesis unfolding Let_def w1_def [symmetric] by blast
qed

theorem undefined_component_is_logged_witness:
  \<open>isComponentTag sample_env ''Foo''
   \<and> lookup_component (component_name ''Foo'') sample_state = None
   \<and> \<not> isCustomElementTag sample_env (component_name ''Foo'')
   \<and> enter sample_env (compileHtml_fuel 0 sample_env) (node InlineComponent (Some ''Foo'') [] []) None
       (initial_walk sample_state)
     = Returned False
         ((initial_walk sample_state)
            \<lparr>paren := - 2,
             state := log (LogError ''src/pages/index.astro''
                        (''Error: Unable to render "Foo" because it is undefined'' @ [CHR 0x0A]
                           @ ''  /project/src/pages/index.astro'')) sample_state\<rparr>)
   \<and> visit sample_env (compileHtml_fuel 0 sample_env) None (node InlineComponent (Some ''Foo'') [] [])
       (initial_walk sample_state)
     = Returned ()
         ((initial_walk sample_state)
            \<lparr>buffers_out := '')'', paren := - 3,
             state := log (LogError ''src/pages/index.astro''
                        (''Error: Unable to render "Foo" because it is undefined'' @ [CHR 0x0A]
                           @ ''  /project/src/pages/index.astro'')) sample_state\<rparr>)\<close>
proof -
  let ?nd = "node InlineComponent (Some ''Foo'') [] []"
  let ?rec = "compileHtml_fuel 0 sample_env"
  have ty: "n_type ?nd = Element \<or> n_type ?nd = Title \<or> n_type ?nd = InlineComponent \<or> n_type ?nd = Head"
    by (simp add: node_def)
  have nm: "n_name ?nd = Some ''Foo''" "''Foo'' \<noteq> []" "''Foo'' \<noteq> ''Prism''"
    by (simp_all add: node_def)
  have ct: "isComponentTag sample_env ''Foo''"
    by (simp add: sample_env_def is_upper_def)
  have ga: "getAttributes sample_env ?rec ''Foo'' (n_attributes ?nd) (state (initial_walk sample_state))
              = Returned [] sample_state"
    by (simp add: node_def getAttributes_def initial_walk_def)
  have cn: "component_name ''Foo'' = ''Foo''" by (simp add: component_name_def)
  have un: "lookup_component (component_name ''Foo'') sample_state = None"
    "\<not> isCustomElementTag sample_env (component_name ''Foo'')"
    "component_name ''Foo'' \<notin> set (declarations sample_state)"
    "component_name ''Foo'' \<noteq> ''Fragment''"
    by (simp_all add: cn lookup_component_def sample_state_def initial_state_def sample_env_def)
  have r: "rel sample_env ''/project/src/pages/index.astro'' = ''src/pages/index.astro''"
    by (simp add: rel_def sample_env_def startsWith_def)
  have leaf: "n_attributes ?nd = [] \<and> n_expression ?nd = None \<and> n_children ?nd = []
            \<and> curr (initial_walk sample_state) = BufOut
            \<and> insideMarkdown (state (initial_walk sample_state)) = None"
    by (simp add: node_def initial_walk_def sample_state_def initial_state_def)
  have f: "filename sample_state = ''/project/src/pages/index.astro''"
    by (simp add: sample_state_def initial_state_def)
  have cp: "close_parens ?nd w = (if paren w \<noteq> - 1 then w\<lparr>buffers_out := buffers_out w @ '')'',
              paren := paren w - 1\<rparr> else w)" for w
    by (simp add: close_parens_def has_slot_attribute_def node_def)
  note t = undefined_component_is_logged [OF ty nm ct ga un, of None, unfolded Let_def]
  note e = t [THEN conjunct1]
  note v = t [THEN conjunct2, THEN conjunct2, rule_format, OF leaf]
  from e v have
    \<open>enter sample_env ?rec ?nd None (initial_walk sample_state)
       = Returned False
         ((initial_walk sample_state)
            \<lparr>paren := - 2,
             state := log (LogError ''src/pages/index.astro''
                        (''Error: Unable to render "Foo" because it is undefined'' @ [CHR 0x0A]
                           @ ''  /project/src/pages/index.astro'')) sample_state\<rparr>)\<close>
    and \<open>visit sample_env ?rec None ?nd (initial_walk sample_state)
     = Returned ()
         ((initial_walk sample_state)
            \<lparr>buffers_out := '')'', paren := - 3,
             state := log (LogError ''src/pages/index.astro''
                        (''Error: Unable to render "Foo" because it is undefined'' @ [CHR 0x0A]
                           @ ''  /project/src/pages/index.astro'')) sample_state\<rparr>)\<close>
    by (simp_all add: cp initial_walk_def r cn f)
  with ct un show ?thesis by simp
qed

text \<open>
  C2 (as stated) fails: the compile of a document with the unresolved
  component \<^verbatim>\<open><Foo/>\<close> does not abort. It returns an artifact, and the error is
  in the log.
\<close>

theorem undefined_component_not_fatal:
  \<open>codegen 1 sample_env sample_menv (sample_ast None undefined_component_document)
       ''/project/src/pages/index.astro'' ''index''
     = Returned
         \<lparr>r_script = [], r_imports = [], r_exports = [], r_html = ''h(Fragment, null,))'',
          r_css = None, r_getStaticPaths = None, r_hasCustomElements = False,
          r_customElementCandidates = []\<rparr>
         (log (LogError ''src/pages/index.astro''
                (''Error: Unable to render "Foo" because it is undefined'' @ [CHR 0x0A]
                   @ ''  /project/src/pages/index.astro'')) sample_state)\<close>
  by code_simp

text \<open>
  The tag \<^verbatim>\<open>Markdown\<close> without its import is the exception: the error is logged
  in the same way, but the compile of the document \<^verbatim>\<open><Markdown/>\<close> is never
  settled, because of the \<^verbatim>\<open>TypeError\<close> of \<^verbatim>\<open>leave\<close>.
\<close>

lemma unimported_markdown_pending:
  \<open>codegen 1 sample_env sample_menv (sample_ast None unimported_markdown_document)
       ''/project/src/pages/index.astro'' ''index''
     = Pending (TypeError ''Cannot create property count on boolean false'')
         ((log (LogError ''src/pages/index.astro''
                (''Error: Unable to render "Markdown" because it is undefined'' @ [CHR 0x0A]
                   @ ''  /project/src/pages/index.astro'')) sample_state))\<close>
  by code_simp

section \<open>An expression that does not transpile\<close>




section \<open>Parentheses of the emitted expression\<close>

text \<open>
  The difference of the two counts is additive, and \<^verbatim>\<open>JSON.stringify\<close> keeps it.
\<close>

lemma balance_Nil [simp]: "balance [] = 0"
  by (simp add: balance_def)

lemma balance_append [simp]: "balance (a @ b) = balance a + balance b"
  by (simp add: balance_def)

lemma balance_Cons [simp]:
  "balance (c # s) = (if c = CHR ''('' then 1 else if c = CHR '')'' then - 1 else 0) + balance s"
  by (simp add: balance_def)

lemma hex_digit_no_paren: "hex_digit n \<noteq> CHR ''('' \<and> hex_digit n \<noteq> CHR '')''"
proof -
  have "n mod 16 < length ''0123456789abcdef''" by simp
  then have "hex_digit n \<in> set ''0123456789abcdef''"
    unfolding hex_digit_def by (rule nth_mem)
  then show ?thesis by auto
qed

lemma balance_json_escape: "balance (json_escape c) = balance [c]"
  using hex_digit_no_paren [of "of_char c div 16"] hex_digit_no_paren [of "of_char c"]
  by (simp add: json_escape_def)

lemma balance_concat_json_escape: "balance (concat (map json_escape s)) = balance s"
proof (induction s)
  case (Cons c s)
  have "balance (concat (map json_escape (c # s))) = balance (json_escape c) + balance s"
    using Cons by simp
  also have "\<dots> = balance [c] + balance s" by (simp only: balance_json_escape)
  finally show ?case by simp
qed simp

lemma balance_JSON_stringify [simp]: "balance (JSON_stringify s) = balance s"
  by (simp add: JSON_stringify_def balance_concat_json_escape)

text \<open>
  The four rewrites of the finished buffer add and remove commas only.
\<close>

lemma count_strip_leading_comma:
  "c \<noteq> CHR '','' \<Longrightarrow> count_list (strip_leading_comma s) c = count_list s c"
  by (cases s) (simp_all add: strip_leading_comma_def)

lemma count_comma_paren:
  "c \<noteq> CHR '','' \<Longrightarrow> count_list (comma_paren s) c = count_list s c"
proof (induction s rule: comma_paren.induct)
  case (1 a d cs)
  show ?case
  proof (cases "a = CHR '','' \<and> d = CHR '')''")
    case True
    with "1.IH"(1) "1.prems" show ?thesis by simp
  next
    case False
    then have e: "comma_paren (a # d # cs) = a # comma_paren (d # cs)" by auto
    have ih: "count_list (comma_paren (d # cs)) c = count_list (d # cs) c"
      using "1.IH"(2) [OF False "1.prems"] .
    show ?thesis unfolding e by (simp only: count_list.simps ih)
  qed
qed simp_all

lemma count_collapse_commas:
  "c \<noteq> CHR '','' \<Longrightarrow> count_list (collapse_commas s) c = count_list s c"
proof (induction s rule: collapse_commas.induct)
  case (1 a d cs)
  show ?case
  proof (cases "a = CHR '','' \<and> d = CHR '',''")
    case True
    with "1.IH"(1) "1.prems" show ?thesis by simp
  next
    case False
    then have e: "collapse_commas (a # d # cs) = a # collapse_commas (d # cs)" by auto
    have ih: "count_list (collapse_commas (d # cs)) c = count_list (d # cs) c"
      using "1.IH"(2) [OF False "1.prems"] .
    show ?thesis unfolding e by (simp only: count_list.simps ih)
  qed
qed simp_all

lemma count_paren_h:
  "c \<noteq> CHR '','' \<Longrightarrow> count_list (paren_h s) c = count_list s c"
proof (induction s rule: paren_h.induct)
  case (1 a d cs)
  show ?case
  proof (cases "a = CHR '')'' \<and> d = CHR ''h''")
    case True
    with "1.IH"(1) "1.prems" show ?thesis by simp
  next
    case False
    then have e: "paren_h (a # d # cs) = a # paren_h (d # cs)" by auto
    have ih: "count_list (paren_h (d # cs)) c = count_list (d # cs) c"
      using "1.IH"(2) [OF False "1.prems"] .
    show ?thesis unfolding e by (simp only: count_list.simps ih)
  qed
qed simp_all

lemma count_cleanup:
  "c \<noteq> CHR '','' \<Longrightarrow> count_list (cleanup s) c = count_list s c"
  by (simp add: cleanup_def count_strip_leading_comma count_comma_paren count_collapse_commas count_paren_h)

lemma balance_cleanup [simp]: "balance (cleanup s) = balance s"
  by (simp add: balance_def count_cleanup)









lemma JSON_stringify_nonempty [simp]: "JSON_stringify s \<noteq> []"
  by (simp add: JSON_stringify_def)






text \<open>
  The attributes of a node are passed over by the walk; the attribute \<^verbatim>\<open>slot\<close> opens
  one more call, which \<^verbatim>\<open>leave\<close> closes.
\<close>

lemma balance_unescape_curly [simp]: "balance (unescape_curly s) = balance s"
proof (induction s rule: unescape_curly.induct)
  case (1 s)
  show ?case
  proof (cases "s = []")
    case True
    then show ?thesis by (subst unescape_curly.simps) simp
  next
    case ne: False
    show ?thesis
    proof (cases "startsWith s escaped_curly")
      case True
      then have s: "s = escaped_curly @ drop (length escaped_curly) s"
        by (metis startsWith_def append_take_drop_id)
      have e: "balance escaped_curly = 0" by (simp add: escaped_curly_def)
      have "balance (unescape_curly s) = balance (unescape_curly (drop (length escaped_curly) s))"
        using ne True by (subst unescape_curly.simps) simp
      also have "\<dots> = balance (drop (length escaped_curly) s)" using "1.IH"(1) [OF ne True] .
      also have "\<dots> = balance s" using e by (subst (2) s) simp
      finally show ?thesis .
    next
      case False
      from ne obtain c cs where s: "s = c # cs" by (cases s) auto
      have "balance (unescape_curly s) = balance (c # unescape_curly cs)"
        using ne False s by (subst unescape_curly.simps) simp
      also have "\<dots> = balance (c # cs)" using "1.IH"(2) [OF ne False] s by simp
      finally show ?thesis using s by simp
    qed
  qed
qed










lemma plain_expression: "plain env nd \<Longrightarrow> plain_option env (n_expression nd)"
  by (cases nd) simp

lemma plain_children: "plain env nd \<Longrightarrow> plain_list env (n_children nd)"
  by (cases nd) simp




















section \<open>The frontmatter pass\<close>

lemma rewrite_expr_literal:
  "literal_calls e \<Longrightarrow> rewrite_expr f e = Inr (wrap_expr e)"
  "literal_calls_list es \<Longrightarrow> rewrite_exprs f es = Inr (wrap_exprs es)"
proof (induction f e and f es rule: rewrite_expr_rewrite_exprs.induct)
  case (5 fname callee args)
  from "5.prems" have lc: "literal_calls callee" and ll: "literal_calls_list args" by simp_all
  show ?case
  proof (cases "is_fetchContent callee")
    case True
    with "5.prems" obtain a rest where Cons: "args = a # rest" and lit: "is_StringLiteral a"
      by (auto split: list.splits)
    from lit have nn: "\<not> \<not> is_StringLiteral a" by simp
    have c: "rewrite_expr fname callee = Inr (wrap_expr callee)"
      using "5.IH"(1) [OF True Cons nn lc] .
    have a: "rewrite_exprs fname args = Inr (wrap_exprs args)"
      using "5.IH"(2) [OF True Cons nn c ll] .
    from True Cons lit c a show ?thesis by simp
  next
    case False
    have c: "rewrite_expr fname callee = Inr (wrap_expr callee)"
      using "5.IH"(3) [OF False lc] .
    have a: "rewrite_exprs fname args = Inr (wrap_exprs args)"
      using "5.IH"(4) [OF False c ll] .
    from False c a show ?thesis by simp
  qed
qed simp_all

lemma rewrite_expr_nonliteral:
  "\<not> literal_calls e \<Longrightarrow> \<exists>err. rewrite_expr f e = Inl err"
  "\<not> literal_calls_list es \<Longrightarrow> \<exists>err. rewrite_exprs f es = Inl err"
proof (induction f e and f es rule: rewrite_expr_rewrite_exprs.induct)
  case (4 fname obj prp computed)
  then show ?case by (cases "rewrite_expr fname obj"; cases "rewrite_expr fname prp") auto
next
  case (5 fname callee args)
  show ?case
  proof (cases "is_fetchContent callee")
    case True
    show ?thesis
    proof (cases args)
      case Nil
      with True show ?thesis by simp
    next
      case (Cons a rest)
      show ?thesis
      proof (cases "is_StringLiteral a")
        case False
        with True Cons show ?thesis by simp
      next
        case lit: True
        from lit have nn: "\<not> \<not> is_StringLiteral a" by simp
        from lit True Cons "5.prems" have d: "\<not> literal_calls callee \<or> \<not> literal_calls_list args" by simp
        show ?thesis
        proof (cases "rewrite_expr fname callee")
          case (Inl e)
          with True Cons lit show ?thesis by simp
        next
          case (Inr callee')
          with d "5.IH"(1) [OF True Cons nn] have nl: "\<not> literal_calls_list args"
            by auto
          from "5.IH"(2) [OF True Cons nn Inr nl] obtain err where "rewrite_exprs fname args = Inl err"
            by auto
          with True Cons lit Inr show ?thesis by simp
        qed
      qed
    qed
  next
    case False
    with "5.prems" have d: "\<not> literal_calls callee \<or> \<not> literal_calls_list args" by simp
    show ?thesis
    proof (cases "rewrite_expr fname callee")
      case (Inl e)
      with False show ?thesis by simp
    next
      case (Inr callee')
      with d "5.IH"(3) [OF False] have nl: "\<not> literal_calls_list args" by auto
      from "5.IH"(4) [OF False Inr nl] obtain err where "rewrite_exprs fname args = Inl err" by auto
      with False Inr show ?thesis by simp
    qed
  qed
next
  case (6 fname kind kids)
  then show ?case by auto
next
  case (8 fname e es)
  then show ?case by (cases "rewrite_expr fname e"; cases "rewrite_exprs fname es") auto
qed simp_all

lemma rewrite_declarators_literal:
  "list_all literal_calls_declarator ds \<Longrightarrow> rewrite_declarators f ds = Inr (map wrap_declarator ds)"
proof (induction f ds rule: rewrite_declarators.induct)
  case (2 fname i init ds)
  then show ?case
    by (cases init) (simp_all add: literal_calls_declarator_def wrap_declarator_def rewrite_expr_literal(1))
qed simp

lemma rewrite_declarators_nonliteral:
  "\<not> list_all literal_calls_declarator ds \<Longrightarrow> \<exists>err. rewrite_declarators f ds = Inl err"
proof (induction f ds rule: rewrite_declarators.induct)
  case (2 fname i init ds)
  show ?case
  proof (cases "literal_calls i")
    case False
    from rewrite_expr_nonliteral(1) [OF this, of fname] show ?thesis by auto
  next
    case li: True
    show ?thesis
    proof (cases "case init of None \<Rightarrow> True | Some e \<Rightarrow> literal_calls e")
      case False
      then obtain e where e: "init = Some e" "\<not> literal_calls e" by (auto split: option.splits)
      from rewrite_expr_nonliteral(1) [OF e(2), of fname] e(1) li show ?thesis
        by (auto simp: rewrite_expr_literal(1))
    next
      case True
      with li have "literal_calls_declarator (VariableDeclarator i init)"
        by (simp add: literal_calls_declarator_def)
      with "2.prems" have nl: "\<not> list_all literal_calls_declarator ds"
        by simp
      have re: "rewrite_expr fname i = Inr (wrap_expr i)" using li by (rule rewrite_expr_literal(1))
      have ri: "(case init of None \<Rightarrow> Inr None | Some x \<Rightarrow> map_sum id Some (rewrite_expr fname x))
          = Inr (map_option wrap_expr init)"
        using True by (cases init) (simp_all add: rewrite_expr_literal(1))
      from "2.IH" [OF re ri nl] obtain err where "rewrite_declarators fname ds = Inl err" by blast
      with re ri show ?thesis by simp
    qed
  qed
qed simp

lemma rewrite_statement_literal:
  "literal_calls_statement s \<Longrightarrow> rewrite_statement f s = Inr (wrap_statement s)"
  by (induction f s rule: rewrite_statement.induct)
     (simp_all add: rewrite_expr_literal(2) rewrite_declarators_literal)

lemma rewrite_statement_nonliteral:
  "\<not> literal_calls_statement s \<Longrightarrow> \<exists>err. rewrite_statement f s = Inl err"
proof (induction f s rule: rewrite_statement.induct)
  case (2 fname d a b)
  then show ?case by auto
next
  case (3 fname n kids)
  with rewrite_expr_nonliteral(2) [of kids fname] show ?case by auto
next
  case (5 fname ds)
  with rewrite_declarators_nonliteral [of ds fname] show ?case by auto
next
  case (6 fname kind kids)
  with rewrite_expr_nonliteral(2) [of kids fname] show ?case by auto
qed simp_all

lemma rewrite_body_literal:
  "list_all literal_calls_statement ss \<Longrightarrow> rewrite_body f ss = Inr (map wrap_statement ss)"
  by (induction ss) (simp_all add: rewrite_statement_literal)

lemma rewrite_body_nonliteral:
  "\<not> list_all literal_calls_statement ss \<Longrightarrow> \<exists>err. rewrite_body f ss = Inl err"
proof (induction ss)
  case (Cons s ss)
  show ?case
  proof (cases "literal_calls_statement s")
    case False
    from rewrite_statement_nonliteral [OF this, of f] show ?thesis by auto
  next
    case True
    with Cons obtain err where "rewrite_body f ss = Inl err" by auto
    with True show ?thesis by (simp add: rewrite_statement_literal)
  qed
qed simp

lemma classify_statement_body:
  "classify_statement menv s acc = Inr acc'
     \<Longrightarrow> body acc' = (if stays_in_script s then s # body acc else body acc)"
  by (auto simp: classify_statement_def stays_in_script_def
      split: statement.splits option.splits list.splits if_splits)

lemma classify_loop_body:
  "classify_loop menv xs acc = Inr cl \<Longrightarrow> body cl = filter stays_in_script (rev xs) @ body acc"
proof (induction xs arbitrary: acc)
  case (Cons x xs)
  from Cons.prems obtain acc' where s: "classify_statement menv x acc = Inr acc'"
    and l: "classify_loop menv xs acc' = Inr cl"
    by (auto split: sum.splits)
  from Cons.IH [OF l] classify_statement_body [OF s] show ?case by simp
qed simp

lemma classify_body_body:
  "classify_body menv stmts decls = Inr cl \<Longrightarrow> body cl = filter stays_in_script stmts"
  by (auto simp: classify_body_def dest: classify_loop_body)

lemma record_specifiers_importStatements [simp]:
  "importStatements (record_specifiers u s sps st) = importStatements st"
  by (induction sps arbitrary: st) (simp_all add: Let_def)

lemma record_imports_importStatements:
  "record_imports env menv c src imps st = Inr st' \<Longrightarrow> x \<in> set (importStatements st)
     \<Longrightarrow> x \<in> set (importStatements st')"
  by (induction env menv c src imps st rule: record_imports.induct)
     (auto simp: Let_def add_import_def set_add_def split: if_splits)

lemma compileModule_Returned:
  assumes "compileModule env menv c (Some m) st = Returned r st'"
  obtains stmts program st1 cl st3 where
    "babel_parse menv (content m) = Inr stmts"
    "convert_fetchContent (content m) stmts st = Returned program st1"
    "classify_body menv program (declarations st1) = Inr cl"
    "record_imports env menv c (content m) (c_componentImports cl)
       (st1\<lparr>declarations := c_declarations cl\<rparr>) = Inr st3"
    "transformSync env (babelGenerator menv (body cl)) = Inr (script r)"
    "importStatements st' = importStatements st3"
proof -
  from assms obtain parsed where p: "babel_parse menv (content m) = Inr parsed"
    by (auto simp: compileModule_def split: sum.splits)
  from assms p obtain program st1 where
    cf: "convert_fetchContent (content m) parsed st = Returned program st1"
    by (auto simp: compileModule_def and_then_def split: outcome.splits)
  from assms p cf obtain cl where cl: "classify_body menv program (declarations st1) = Inr cl"
    by (auto simp: compileModule_def and_then_def split: sum.splits)
  from assms p cf cl obtain st3 where
    ri: "record_imports env menv c (content m) (c_componentImports cl)
           (st1\<lparr>declarations := c_declarations cl\<rparr>) = Inr st3"
    by (auto simp: compileModule_def and_then_def Let_def split: sum.splits)
  define st5 where "st5 =
    (if length (c_componentProps cl) > 0
     then log (LogWarn (shortname env) (props_warning (c_componentProps cl)))
            (record_exports (content m) (c_componentExports cl) st3)
     else record_exports (content m) (c_componentExports cl) st3)"
  have i5: "importStatements st5 = importStatements st3"
    by (simp add: st5_def log_def record_exports_def)
  from assms p cf cl ri have
    tr: "(case transpileExpressionSafe env (babelGenerator menv (body cl)) st5 of
            Returned transpiled st6 \<Rightarrow>
              (case transpiled of
                 None \<Rightarrow> Thrown (Error ''Unable to compile script'') st6
               | Some transpiledScript \<Rightarrow>
                   Returned \<lparr>script = transpiledScript,
                             getStaticPaths = (if c_getStaticPaths cl = [] then None
                                               else Some (c_getStaticPaths cl))\<rparr> st6)
          | Thrown e s \<Rightarrow> Thrown e s
          | Pending e s \<Rightarrow> Pending e s
          | OutOfFuel \<Rightarrow> OutOfFuel) = Returned r st'"
    by (simp add: compileModule_def and_then_def Let_def st5_def)
  then obtain code where "transpileExpressionSafe env (babelGenerator menv (body cl)) st5 = Returned (Some code) st'"
    and "script r = code"
    by (auto split: outcome.splits option.splits)
  then have "transformSync env (babelGenerator menv (body cl)) = Inr (script r) \<and> st' = st5"
    by (simp add: transpileExpressionSafe_Some)
  with that [OF p cf cl ri] i5 show ?thesis by simp
qed

lemma stays_in_script_wrap [simp]: "stays_in_script (wrap_statement s) = stays_in_script s"
proof (cases s rule: wrap_statement.cases)
  case (2 d a b)
  then show ?thesis
    by (cases d rule: wrap_statement.cases) (simp_all add: stays_in_script_def)
qed (simp_all add: stays_in_script_def)

lemma filter_stays_wrap:
  "filter stays_in_script (map wrap_statement stmts) = map wrap_statement (filter stays_in_script stmts)"
  by (induction stmts) simp_all

lemma classify_var_export:
  "classify_statement menv (ExportNamedDeclaration (Some (VariableDeclaration (d # later))) a b) acc
     = Inr (if is_special_export d
            then acc\<lparr>c_componentExports := c_componentExports acc
                      @ [ExportNamedDeclaration (Some (VariableDeclaration (d # later))) a b]\<rparr>
            else acc\<lparr>c_componentProps := c_componentProps acc @ [d]\<rparr>)"
  by (simp add: classify_statement_def is_special_export_def)

lemma var_export_goes: "\<not> stays_in_script (ExportNamedDeclaration (Some (VariableDeclaration ds)) a b)"
  by (simp add: stays_in_script_def)

lemma program_of_convert:
  assumes a2: "convert_fetchContent src stmts st = Returned program st1"
  shows "program = (if mentions_fetchContent src then map wrap_statement else id) stmts"
proof (cases "mentions_fetchContent src")
  case False
  with a2 show ?thesis by (simp add: convert_fetchContent_def)
next
  case True
  show ?thesis
  proof (cases "list_all literal_calls_statement stmts")
    case l: True
    from a2 True rewrite_body_literal [OF l] show ?thesis
      by (simp add: convert_fetchContent_def Let_def)
  next
    case False
    from rewrite_body_nonliteral [OF False, of "filename (add_import fetchContent_import st)"]
    obtain err where "rewrite_body (filename (add_import fetchContent_import st)) stmts = Inl err"
      by blast
    with a2 True show ?thesis
      by (simp add: convert_fetchContent_def Let_def)
  qed
qed

lemma script_of_compileModule:
  assumes p: "babel_parse menv (content m) = Inr stmts"
    and r: "compileModule env menv c (Some m) st = Returned r st'"
  shows "transformSync env
          (babelGenerator menv
             ((if mentions_fetchContent (content m) then map wrap_statement else id)
                (filter stays_in_script stmts)))
          = Inr (script r)"
proof -
  from r obtain stmts' program st1 cl st3 where
    a1: "babel_parse menv (content m) = Inr stmts'"
    and a2: "convert_fetchContent (content m) stmts' st = Returned program st1"
    and a3: "classify_body menv program (declarations st1) = Inr cl"
    and a4: "record_imports env menv c (content m) (c_componentImports cl)
       (st1\<lparr>declarations := c_declarations cl\<rparr>) = Inr st3"
    and a5: "transformSync env (babelGenerator menv (body cl)) = Inr (script r)"
    and a6: "importStatements st' = importStatements st3"
    by (rule compileModule_Returned)
  from a1 p have e: "stmts' = stmts" by simp
  have pr: "program = (if mentions_fetchContent (content m) then map wrap_statement else id) stmts"
    using program_of_convert [OF a2] e by simp
  have b: "body cl = filter stays_in_script program"
    using a3 by (rule classify_body_body)
  have "body cl = (if mentions_fetchContent (content m) then map wrap_statement else id)
                    (filter stays_in_script stmts)"
  proof (cases "mentions_fetchContent (content m)")
    case True
    with b pr show ?thesis by (simp only: filter_stays_wrap if_True)
  next
    case False
    with b pr show ?thesis by simp
  qed
  with a5 show ?thesis by simp
qed

text \<open>
  C10. A named export of a variable declaration is classified by its first
  declarator alone: when that is \<^verbatim>\<open>__layout\<close> or \<^verbatim>\<open>__content\<close> the whole export
  statement is recorded as a special export, otherwise the first declarator is
  recorded as a prop; the later declarators play no part. In both cases the
  statement does not stay in the program, and the emitted script is the
  transpiled text that the generator gives for the statements that stay.
\<close>

theorem export_classified_by_first_declarator:
  "classify_statement menv (ExportNamedDeclaration (Some (VariableDeclaration (d # later))) a b) acc
     = Inr (if is_special_export d
            then acc\<lparr>c_componentExports := c_componentExports acc
                      @ [ExportNamedDeclaration (Some (VariableDeclaration (d # later))) a b]\<rparr>
            else acc\<lparr>c_componentProps := c_componentProps acc @ [d]\<rparr>)
   \<and> \<not> stays_in_script (ExportNamedDeclaration (Some (VariableDeclaration (d # later))) a b)
   \<and> (\<forall>m stmts r st st'.
        babel_parse menv (content m) = Inr stmts \<longrightarrow>
        compileModule env menv c (Some m) st = Returned r st' \<longrightarrow>
        transformSync env
          (babelGenerator menv
             ((if mentions_fetchContent (content m) then map wrap_statement else id)
                (filter stays_in_script stmts)))
          = Inr (script r))"
  using classify_var_export var_export_goes script_of_compileModule by blast

text \<open>
  C7 (as the code has it). Let the source text of the frontmatter match
  \<^verbatim>\<open>/Astro\s*\.\s*fetchContent/\<close>. If some call \<^verbatim>\<open>Astro.fetchContent(...)\<close> of the
  program has no string literal as its first argument, \<^verbatim>\<open>compileModule\<close> throws
  and so does \<^verbatim>\<open>codegen\<close>. If every such call has one, then whenever
  \<^verbatim>\<open>compileModule\<close> returns, the injected import of \<^verbatim>\<open>fetchContent\<close> is among the
  import statements and the script is the transpiled text of the program in
  which the arguments of every such call are wrapped in
  \<^verbatim>\<open>import.meta.globEager(...)\<close> (the statements that stay in the script).
\<close>

theorem fetchContent_rewrite:
  assumes p: "babel_parse menv (content m) = Inr stmts"
    and g: "mentions_fetchContent (content m)"
  shows "(\<not> list_all literal_calls_statement stmts \<longrightarrow>
            (\<exists>e st'. compileModule env menv c (Some m) st = Thrown e st')
          \<and> (\<forall>ast :: Ast. ast_module ast = Some m \<longrightarrow> has_custom_element_feature ast = c \<longrightarrow>
                (\<exists>e st'. codegen fuel env menv ast f i = Thrown e st')))
       \<and> (list_all literal_calls_statement stmts \<longrightarrow>
            (\<forall>r st'. compileModule env menv c (Some m) st = Returned r st' \<longrightarrow>
               fetchContent_import \<in> set (importStatements st')
             \<and> transformSync env (babelGenerator menv (map wrap_statement (filter stays_in_script stmts)))
                 = Inr (script r)))"
proof (intro conjI impI allI)
  assume nl: "\<not> list_all literal_calls_statement stmts"
  have th: "\<exists>e st'. compileModule env menv c (Some m) st0 = Thrown e st'" for st0
  proof -
    from rewrite_body_nonliteral [OF nl] obtain err where
      "rewrite_body (filename (add_import fetchContent_import st0)) stmts = Inl err" by blast
    with p g show ?thesis
      by (simp add: compileModule_def convert_fetchContent_def and_then_def Let_def)
  qed
  from th show "\<exists>e st'. compileModule env menv c (Some m) st = Thrown e st'" .
  fix ast :: Ast
  assume am: "ast_module ast = Some m" and hc: "has_custom_element_feature ast = c"
  from th [of "initial_state f i"] obtain e st' where
    "compileModule env menv c (Some m) (initial_state f i) = Thrown e st'" by blast
  with am hc have "codegen fuel env menv ast f i = Thrown e st'"
    unfolding codegen_def by (simp add: and_then_def)
  then show "\<exists>e st'. codegen fuel env menv ast f i = Thrown e st'" by blast
next
  fix r st'
  assume l: "list_all literal_calls_statement stmts"
    and r: "compileModule env menv c (Some m) st = Returned r st'"
  from r obtain stmts' program st1 cl st3 where
    a1: "babel_parse menv (content m) = Inr stmts'"
    and a2: "convert_fetchContent (content m) stmts' st = Returned program st1"
    and a3: "classify_body menv program (declarations st1) = Inr cl"
    and a4: "record_imports env menv c (content m) (c_componentImports cl)
       (st1\<lparr>declarations := c_declarations cl\<rparr>) = Inr st3"
    and a5: "transformSync env (babelGenerator menv (body cl)) = Inr (script r)"
    and a6: "importStatements st' = importStatements st3"
    by (rule compileModule_Returned)
  from a1 p have e: "stmts' = stmts" by simp
  from a2 g e rewrite_body_literal [OF l, of "filename (add_import fetchContent_import st)"]
  have s1: "st1 = add_import fetchContent_import st"
    by (simp add: convert_fetchContent_def Let_def)
  have "fetchContent_import \<in> set (importStatements (st1\<lparr>declarations := c_declarations cl\<rparr>))"
    by (simp add: s1 add_import_def set_add_def)
  from record_imports_importStatements [OF a4 this] a6
  show "fetchContent_import \<in> set (importStatements st')" by simp
  from script_of_compileModule [OF p r] g
  show "transformSync env (babelGenerator menv (map wrap_statement (filter stays_in_script stmts)))
          = Inr (script r)"
    by simp
qed

theorem fetchContent_rewrite_witness:
  "mentions_fetchContent ''const x = Astro.fetchContent('./*.md');''
   \<and> list_all literal_calls_statement [const_x (fetch_call (StringLiteral ''./*.md''))]
   \<and> compileModule sample_env sample_menv False
         (Some \<lparr>content = ''const x = Astro.fetchContent('./*.md');''\<rparr>) sample_state
       = Returned \<lparr>script = ''const x = Astro.fetchContent(import.meta.globEager('./*.md'));;'' @ [CHR 0x0A],
                   getStaticPaths = None\<rparr>
           (sample_state\<lparr>declarations := [''x''], importStatements := [fetchContent_import]\<rparr>)
   \<and> transformSync sample_env (babelGenerator sample_menv
         (map wrap_statement (filter stays_in_script [const_x (fetch_call (StringLiteral ''./*.md''))])))
       = Inr (''const x = Astro.fetchContent(import.meta.globEager('./*.md'));;'' @ [CHR 0x0A])
   \<and> \<not> list_all literal_calls_statement [const_x (fetch_call (Identifier ''p''))]
   \<and> (\<exists>e st'. compileModule sample_env sample_menv False
                  (Some \<lparr>content = ''const x = Astro.fetchContent(p);''\<rparr>) sample_state = Thrown e st')"
proof -
  have p1: "babel_parse sample_menv (content \<lparr>content = ''const x = Astro.fetchContent('./*.md');''\<rparr>)
              = Inr [const_x (fetch_call (StringLiteral ''./*.md''))]"
    by code_simp
  have g1: "mentions_fetchContent (content \<lparr>content = ''const x = Astro.fetchContent('./*.md');''\<rparr>)"
    by code_simp
  have l1: "list_all literal_calls_statement [const_x (fetch_call (StringLiteral ''./*.md''))]"
    by code_simp
  have r1: "compileModule sample_env sample_menv False
         (Some \<lparr>content = ''const x = Astro.fetchContent('./*.md');''\<rparr>) sample_state
       = Returned \<lparr>script = ''const x = Astro.fetchContent(import.meta.globEager('./*.md'));;'' @ [CHR 0x0A],
                   getStaticPaths = None\<rparr>
           (sample_state\<lparr>declarations := [''x''], importStatements := [fetchContent_import]\<rparr>)"
    by code_simp
  have p2: "babel_parse sample_menv (content \<lparr>content = ''const x = Astro.fetchContent(p);''\<rparr>)
              = Inr [const_x (fetch_call (Identifier ''p''))]"
    by code_simp
  have g2: "mentions_fetchContent (content \<lparr>content = ''const x = Astro.fetchContent(p);''\<rparr>)"
    by code_simp
  have l2: "\<not> list_all literal_calls_statement [const_x (fetch_call (Identifier ''p''))]"
    by code_simp
  from fetchContent_rewrite [OF p1 g1, of sample_env False sample_state] l1 r1
  have a: "transformSync sample_env (babelGenerator sample_menv
         (map wrap_statement (filter stays_in_script [const_x (fetch_call (StringLiteral ''./*.md''))])))
       = Inr (''const x = Astro.fetchContent(import.meta.globEager('./*.md'));;'' @ [CHR 0x0A])"
    by simp
  from fetchContent_rewrite [OF p2 g2, of sample_env False sample_state] l2
  have b: "\<exists>e st'. compileModule sample_env sample_menv False
                  (Some \<lparr>content = ''const x = Astro.fetchContent(p);''\<rparr>) sample_state = Thrown e st'"
    by blast
  from g1 l1 r1 a l2 b show ?thesis by simp
qed

text \<open>
  C7 (as stated) fails: a call \<^verbatim>\<open>Astro /**/ .fetchContent(p)\<close>, with a comment
  before the dot, is a call of \<^verbatim>\<open>Astro.fetchContent\<close> with an argument that is
  not a string literal, but the test of the source text does not match, so
  the compile is not fatal; and with a string literal in that place the
  argument is not wrapped and no import is added.
\<close>

theorem fetchContent_guard_misses_call:
  "babel_parse sample_menv ''const x = Astro /**/ .fetchContent(p);''
     = Inr [const_x (fetch_call (Identifier ''p''))]
   \<and> compileModule sample_env sample_menv False
         (Some \<lparr>content = ''const x = Astro /**/ .fetchContent(p);''\<rparr>) sample_state
       = Returned \<lparr>script = ''const x = Astro.fetchContent(p);;'' @ [CHR 0x0A], getStaticPaths = None\<rparr>
           (sample_state\<lparr>declarations := [''x'']\<rparr>)
   \<and> babel_parse sample_menv ''const x = Astro /**/ .fetchContent('./*.md');''
     = Inr [const_x (fetch_call (StringLiteral ''./*.md''))]
   \<and> compileModule sample_env sample_menv False
         (Some \<lparr>content = ''const x = Astro /**/ .fetchContent('./*.md');''\<rparr>) sample_state
       = Returned \<lparr>script = ''const x = Astro.fetchContent('./*.md');;'' @ [CHR 0x0A], getStaticPaths = None\<rparr>
           (sample_state\<lparr>declarations := [''x'']\<rparr>)"
  by code_simp

theorem export_classified_by_first_declarator_witness:
  "is_special_export (VariableDeclarator (Identifier ''__layout'') (Some (Identifier ''a'')))
   \<and> codegen 1 sample_env sample_menv (sample_ast (Some ''export let __layout = a, title = b;'') h1_document)
        ''/project/src/pages/index.astro'' ''index''
     = Returned
         \<lparr>r_script = '';'' @ [CHR 0x0A], r_imports = [],
          r_exports = [''export let __layout = a, title = b;''],
          r_html = ''h(Fragment, null,h(\"h1\", {[__astroContext]:props[__astroContext]},\"Hi\"))'',
          r_css = None, r_getStaticPaths = None, r_hasCustomElements = False,
          r_customElementCandidates = []\<rparr>
         (sample_state\<lparr>exportStatements := [''export let __layout = a, title = b;'']\<rparr>)
   \<and> transformSync sample_env (babelGenerator sample_menv []) = Inr ('';'' @ [CHR 0x0A])
   \<and> r_exports (case codegen 1 sample_env sample_menv
                     (sample_ast (Some ''export let title = b, __layout = a;'') h1_document)
                     ''/project/src/pages/index.astro'' ''index'' of Returned r st \<Rightarrow> r) = []"
proof -
  have p: "babel_parse sample_menv (content \<lparr>content = ''export let __layout = a, title = b;''\<rparr>)
     = Inr [ExportNamedDeclaration
            (Some (VariableDeclaration [VariableDeclarator (Identifier ''__layout'') (Some (Identifier ''a'')),
                                        VariableDeclarator (Identifier ''title'') (Some (Identifier ''b''))]))
            (Some 0) (Some 35)]"
    by code_simp
  have r: "compileModule sample_env sample_menv False
             (Some \<lparr>content = ''export let __layout = a, title = b;''\<rparr>) sample_state
     = Returned \<lparr>script = '';'' @ [CHR 0x0A], getStaticPaths = None\<rparr>
         (sample_state\<lparr>exportStatements := [''export let __layout = a, title = b;'']\<rparr>)"
    by code_simp
  have g: "\<not> mentions_fetchContent (content \<lparr>content = ''export let __layout = a, title = b;''\<rparr>)"
    by code_simp
  from export_classified_by_first_declarator
    [of sample_menv "VariableDeclarator (Identifier ''__layout'') (Some (Identifier ''a''))"
        "[VariableDeclarator (Identifier ''title'') (Some (Identifier ''b''))]" "Some 0" "Some 35" _ sample_env False,
     THEN conjunct2, THEN conjunct2, rule_format, OF p r] g
  have a: "transformSync sample_env (babelGenerator sample_menv []) = Inr ('';'' @ [CHR 0x0A])"
    by (simp add: stays_in_script_def)
  have e: "is_special_export (VariableDeclarator (Identifier ''__layout'') (Some (Identifier ''a'')))
   \<and> codegen 1 sample_env sample_menv (sample_ast (Some ''export let __layout = a, title = b;'') h1_document)
        ''/project/src/pages/index.astro'' ''index''
     = Returned
         \<lparr>r_script = '';'' @ [CHR 0x0A], r_imports = [],
          r_exports = [''export let __layout = a, title = b;''],
          r_html = ''h(Fragment, null,h(\"h1\", {[__astroContext]:props[__astroContext]},\"Hi\"))'',
          r_css = None, r_getStaticPaths = None, r_hasCustomElements = False,
          r_customElementCandidates = []\<rparr>
         (sample_state\<lparr>exportStatements := [''export let __layout = a, title = b;'']\<rparr>)
   \<and> r_exports (case codegen 1 sample_env sample_menv
                     (sample_ast (Some ''export let title = b, __layout = a;'') h1_document)
                     ''/project/src/pages/index.astro'' ''index'' of Returned r st \<Rightarrow> r) = []"
    by code_simp
  from a e show ?thesis by simp
qed

section \<open>Components with \<^verbatim>\<open>client:only\<close>\<close>

text \<open>
  C5, at a failing input. For \<^verbatim>\<open>import * as UI from './ui.jsx';\<close> and the
  template \<^verbatim>\<open><UI.Comp client:only/>\<close> the identifier in the generated call is
  \<^verbatim>\<open>Fragment\<close>, but the raw import of \<^verbatim>\<open>UI\<close> is still in the imports of the
  artifact: the component info is looked up under the namespace \<^verbatim>\<open>UI\<close>, the
  recorded imports under \<^verbatim>\<open>UI.Comp\<close>. For \<^verbatim>\<open>import X from './X.jsx';\<close> and
  \<^verbatim>\<open><X client:only/>\<close> the raw import is removed.
\<close>

theorem namespace_client_only_keeps_import:
  "codegen 1 sample_env sample_menv (sample_ast (Some ''import * as UI from './ui.jsx';'') namespace_only_document)
      ''/project/src/pages/index.astro'' ''index''
   = Returned
       \<lparr>r_script = '';'' @ [CHR 0x0A],
        r_imports = [''import * as UI from './ui.jsx';'', astro_component_import],
        r_exports = [],
        r_html = ''h(Fragment, null,h(__astro_component(Fragment, { hydrate: \"only\", displayName: \"UI.Comp\", componentUrl: \"/_astro/./ui.jsx.js\", componentExport: {\"value\":\"Comp\"}, value: null }), {[__astroContext]:props[__astroContext]}))'',
        r_css = None, r_getStaticPaths = None, r_hasCustomElements = False, r_customElementCandidates = []\<rparr>
       (sample_state
          \<lparr>components := [(''UI'', \<lparr>importSpecifier = ImportNamespaceSpecifier ''UI'', url = ''./ui.jsx''\<rparr>)],
           importStatements := [''import * as UI from './ui.jsx';'', astro_component_import],
           componentImports := [(''UI'', [''import * as UI from './ui.jsx';''])]\<rparr>)
   \<and> r_imports (case codegen 1 sample_env sample_menv
                     (sample_ast (Some ''import X from './X.jsx';'') client_only_document)
                     ''/project/src/pages/index.astro'' ''index'' of Returned r st \<Rightarrow> r)
       = [astro_component_import]"
  by code_simp

section \<open>The Markdown marker\<close>

text \<open>
  C8, at a failing input. After the compile of \<^verbatim>\<open><Markdown:load>text</Markdown:load>\<close>
  the marker \<open>insideMarkdown\<close> is the record with count 1: \<^verbatim>\<open>enter\<close> compares the
  name before the colon with \<^verbatim>\<open>Markdown\<close>, \<^verbatim>\<open>leave\<close> compares the whole name. After
  the compile of \<^verbatim>\<open><Markdown>text</Markdown>\<close> it is \<^verbatim>\<open>false\<close>.
\<close>

theorem legacy_markdown_stays_inside:
  "(case codegen 2 sample_env sample_menv
          (sample_ast (Some ''import { Markdown } from 'astro/components';'') legacy_markdown_document)
          ''/project/src/pages/index.astro'' ''index'' of
      Returned r st \<Rightarrow> Some (insideMarkdown st) | _ \<Rightarrow> None) = Some (Some (None, 1))
   \<and> (case codegen 2 sample_env sample_menv
          (sample_ast (Some ''import { Markdown } from 'astro/components';'') markdown_document)
          ''/project/src/pages/index.astro'' ''index'' of
      Returned r st \<Rightarrow> Some (insideMarkdown st) | _ \<Rightarrow> None) = Some None"
  by code_simp


end
